theory Spec2Isabelle
  imports Main "HOL-Library.Word"
begin

section \<open>The Bigtable broker of gcp-service-broker\<close>

text \<open>
  A shallow embedding of \<^verbatim>\<open>brokerapi/brokers/bigtable/broker.go\<close>: the methods
  \<^verbatim>\<open>Provision\<close> and \<^verbatim>\<open>Deprovision\<close> of \<^verbatim>\<open>BigTableBroker\<close>,
  the table \<^verbatim>\<open>StorageTypes\<close> and \<^verbatim>\<open>MapPlan\<close>.

  Go strings and byte slices are \<open>string\<close> (a list of bytes). A call returns the
  list of calls it made to its collaborators (the name generator, the Bigtable
  administration client, the database), in order, together with its result.
\<close>

subsection \<open>Go values: errors, maps, panics\<close>

datatype NumErr = ErrSyntax | ErrRange

text \<open>
  Go errors. \<open>Errorf p e\<close> is \<^verbatim>\<open>fmt.Errorf(p + "%s", e)\<close>: the message is the
  prefix \<open>p\<close> followed by the message of the cause \<open>e\<close>. \<open>JsonError\<close> stands for
  the \<^verbatim>\<open>*json.SyntaxError\<close> or \<^verbatim>\<open>*json.UnmarshalTypeError\<close> of a failed
  decode, \<open>NumError s e\<close> for \<^verbatim>\<open>&strconv.NumError{"Atoi", s, e}\<close>, and
  \<open>ErrorString m\<close> for an error of a collaborator, by its message.
  \<open>ErrInstanceDoesNotExist\<close> is \<^verbatim>\<open>models.ErrInstanceDoesNotExist\<close> and
  \<open>ErrRecordNotFound\<close> the error of a database query that finds no record;
  both are declared outside this file.
\<close>

datatype error =
    Errorf string error
  | ErrInstanceDoesNotExist
  | ErrRecordNotFound
  | JsonError
  | NumError string NumErr
  | ErrorString string

text \<open>A \<^verbatim>\<open>map[string]string\<close>: the nil map, or a map that was made.\<close>

datatype gomap = NilMap | Map "string \<rightharpoonup> string"

text \<open>\<^verbatim>\<open>v, ok := m[k]\<close>; reading the nil map finds nothing.\<close>

fun map_lookup :: "gomap \<Rightarrow> string \<Rightarrow> string option" where
  "map_lookup NilMap k = None"
| "map_lookup (Map m) k = m k"

text \<open>\<^verbatim>\<open>m[k]\<close>: the zero value \<^verbatim>\<open>""\<close> for a key that is absent.\<close>

definition map_index :: "gomap \<Rightarrow> string \<Rightarrow> string" where
  "map_index m k = (case map_lookup m k of None \<Rightarrow> [] | Some v \<Rightarrow> v)"

text \<open>What a call does: it returns, or it panics (with the runtime's message).\<close>

datatype 'a outcome = Returned 'a | Panic string

text \<open>\<^verbatim>\<open>m[k] = v\<close>; on the nil map the Go runtime panics.\<close>

fun map_assign :: "gomap \<Rightarrow> string \<Rightarrow> string \<Rightarrow> gomap outcome" where
  "map_assign NilMap k v = Panic ''assignment to entry in nil map''"
| "map_assign (Map m) k v = Returned (Map (m(k \<mapsto> v)))"

subsection \<open>The Go library: \<^verbatim>\<open>strconv.Atoi\<close>\<close>

text \<open>
  \<^verbatim>\<open>strconv.Atoi\<close> where \<^verbatim>\<open>int\<close> has 64 bits: an optional sign, then decimal
  digits only. The digits are read left to right; a byte that is no digit is a
  syntax error, a value beyond \<open>2^64 - 1\<close> a range error, whichever comes first.
  The signed value must then fit \<^verbatim>\<open>int\<close>.
\<close>

definition byte :: "char \<Rightarrow> int" where
  "byte c = of_char c"

definition is_digit :: "char \<Rightarrow> bool" where
  "is_digit c \<longleftrightarrow> 0x30 \<le> byte c \<and> byte c \<le> 0x39"

fun ParseUint :: "int \<Rightarrow> string \<Rightarrow> NumErr + int" where
  "ParseUint n [] = Inr n"
| "ParseUint n (c # cs) =
     (if \<not> is_digit c then Inl ErrSyntax
      else if 2 ^ 64 \<le> n * 10 + (byte c - 0x30) then Inl ErrRange
      else ParseUint (n * 10 + (byte c - 0x30)) cs)"

definition Atoi :: "string \<Rightarrow> error + int" where
  "Atoi s =
     (case s of
        [] \<Rightarrow> Inl (NumError s ErrSyntax)
      | c # cs \<Rightarrow>
          (let neg = (c = CHR ''-'');
               ds = (if c = CHR ''+'' \<or> c = CHR ''-'' then cs else s)
           in if ds = [] then Inl (NumError s ErrSyntax)
              else (case ParseUint 0 ds of
                      Inl e \<Rightarrow> Inl (NumError s e)
                    | Inr un \<Rightarrow>
                        if \<not> neg \<and> 2 ^ 63 \<le> un then Inl (NumError s ErrRange)
                        else if neg \<and> 2 ^ 63 < un then Inl (NumError s ErrRange)
                        else Inr (if neg then - un else un))))"

subsection \<open>The Go library: UTF-8\<close>

definition is_cont :: "char \<Rightarrow> bool" where
  "is_cont c \<longleftrightarrow> 0x80 \<le> byte c \<and> byte c \<le> 0xBF"

text \<open>
  The size of the rune that starts a string whose first byte is not ASCII, as
  \<^verbatim>\<open>utf8.DecodeRune\<close> finds it; \<open>None\<close> where it returns \<^verbatim>\<open>(RuneError, 1)\<close>:
  a stray or truncated sequence, an overlong form, a surrogate, a value beyond
  U+10FFFF.
\<close>

fun rune_size :: "string \<Rightarrow> nat option" where
  "rune_size (a # b # rest) =
     (let x = byte a; y = byte b in
      if 0xC2 \<le> x \<and> x \<le> 0xDF then (if is_cont b then Some 2 else None)
      else if 0xE0 \<le> x \<and> x \<le> 0xEF then
        (if (if x = 0xE0 then 0xA0 \<le> y \<and> y \<le> 0xBF
             else if x = 0xED then 0x80 \<le> y \<and> y \<le> 0x9F
             else is_cont b)
            \<and> (case rest of c # _ \<Rightarrow> is_cont c | [] \<Rightarrow> False)
         then Some 3 else None)
      else if 0xF0 \<le> x \<and> x \<le> 0xF4 then
        (if (if x = 0xF0 then 0x90 \<le> y \<and> y \<le> 0xBF
             else if x = 0xF4 then 0x80 \<le> y \<and> y \<le> 0x8F
             else is_cont b)
            \<and> (case rest of c # d # _ \<Rightarrow> is_cont c \<and> is_cont d | _ \<Rightarrow> False)
         then Some 4 else None)
      else None)"
| "rune_size _ = None"

text \<open>\<^verbatim>\<open>utf8.EncodeRune\<close>, for a rune that is no surrogate and at most U+10FFFF.\<close>

definition EncodeRune :: "int \<Rightarrow> string" where
  "EncodeRune r =
     (if r < 0x80 then [char_of r]
      else if r < 0x800 then [char_of (0xC0 + r div 64), char_of (0x80 + r mod 64)]
      else if r < 0x10000 then
        [char_of (0xE0 + r div 4096), char_of (0x80 + r div 64 mod 64), char_of (0x80 + r mod 64)]
      else
        [char_of (0xF0 + r div 262144), char_of (0x80 + r div 4096 mod 64),
         char_of (0x80 + r div 64 mod 64), char_of (0x80 + r mod 64)])"

text \<open>The bytes of U+FFFD, which replace what is not UTF-8.\<close>

definition RuneError :: string where
  "RuneError = [char_of (0xEF :: int), char_of (0xBF :: int), char_of (0xBD :: int)]"

subsection \<open>The Go library: decoding JSON into a \<^verbatim>\<open>map[string]string\<close>\<close>

text \<open>
  \<^verbatim>\<open>json.Unmarshal(data, &m)\<close> for \<^verbatim>\<open>var m map[string]string\<close> that is nil
  before the call. The decoder first checks that the whole input is one JSON
  value, then stores it. It returns no error exactly when the input is, between
  optional white space, the literal \<^verbatim>\<open>null\<close> (which leaves the map nil) or an
  object all of whose member values are strings or \<^verbatim>\<open>null\<close> (a \<^verbatim>\<open>null\<close>
  member stores \<^verbatim>\<open>""\<close>; of two members with one key the later is kept).
  Every other input is a syntax error or a type error, here \<open>JsonError\<close>.
\<close>

definition is_space :: "char \<Rightarrow> bool" where
  "is_space c \<longleftrightarrow> c = CHR '' '' \<or> c = CHR 0x09 \<or> c = CHR 0x0D \<or> c = CHR 0x0A"

definition skip_space :: "string \<Rightarrow> string" where
  "skip_space s = dropWhile is_space s"

definition hex_digit :: "char \<Rightarrow> int option" where
  "hex_digit c =
     (let x = byte c in
      if 0x30 \<le> x \<and> x \<le> 0x39 then Some (x - 0x30)
      else if 0x61 \<le> x \<and> x \<le> 0x66 then Some (x - 0x61 + 10)
      else if 0x41 \<le> x \<and> x \<le> 0x46 then Some (x - 0x41 + 10)
      else None)"

text \<open>\<^verbatim>\<open>getu4\<close>: the rune of a leading \<^verbatim>\<open>\uXXXX\<close>, if the string starts with one.\<close>

fun getu4 :: "string \<Rightarrow> int option" where
  "getu4 (c0 # c1 # a # b # c # d # _) =
     (if c0 = CHR 0x5C \<and> c1 = CHR ''u'' then
        (case (hex_digit a, hex_digit b, hex_digit c, hex_digit d) of
           (Some h3, Some h2, Some h1, Some h0) \<Rightarrow> Some (((h3 * 16 + h2) * 16 + h1) * 16 + h0)
         | _ \<Rightarrow> None)
      else None)"
| "getu4 _ = None"

text \<open>The byte an escape letter after a backslash stands for (all but \<^verbatim>\<open>u\<close>).\<close>

definition escape_byte :: "char \<Rightarrow> char option" where
  "escape_byte e =
     (if e = CHR 0x22 \<or> e = CHR 0x5C \<or> e = CHR ''/'' then Some e
      else if e = CHR ''b'' then Some (CHR 0x08)
      else if e = CHR ''f'' then Some (CHR 0x0C)
      else if e = CHR ''n'' then Some (CHR 0x0A)
      else if e = CHR ''r'' then Some (CHR 0x0D)
      else if e = CHR ''t'' then Some (CHR 0x09)
      else None)"

text \<open>
  One step of \<^verbatim>\<open>unquote\<close> inside a string literal: the bytes it writes and
  the input it leaves. A control byte or a bad escape is a syntax error; a
  \<^verbatim>\<open>\u\<close> escape of a surrogate joins a low surrogate that follows it, and alone
  becomes U+FFFD; a byte that starts no UTF-8 rune becomes U+FFFD.
\<close>

definition unquote_step :: "string \<Rightarrow> (string \<times> string) option" where
  "unquote_step s =
     (case s of
        [] \<Rightarrow> None
      | c # cs \<Rightarrow>
          if c = CHR 0x5C then
            (case cs of
               [] \<Rightarrow> None
             | e # es \<Rightarrow>
                 if e = CHR ''u'' then
                   (case getu4 s of
                      None \<Rightarrow> None
                    | Some rr \<Rightarrow>
                        if 0xD800 \<le> rr \<and> rr < 0xE000 then
                          (case getu4 (drop 6 s) of
                             Some rr1 \<Rightarrow>
                               if rr < 0xDC00 \<and> 0xDC00 \<le> rr1 \<and> rr1 < 0xE000 then
                                 Some (EncodeRune ((rr - 0xD800) * 1024 + (rr1 - 0xDC00) + 0x10000),
                                       drop 12 s)
                               else Some (RuneError, drop 6 s)
                           | None \<Rightarrow> Some (RuneError, drop 6 s))
                        else Some (EncodeRune rr, drop 6 s))
                 else
                   (case escape_byte e of
                      None \<Rightarrow> None
                    | Some x \<Rightarrow> Some ([x], es)))
          else if byte c < 0x20 then None
          else if byte c < 0x80 then Some ([c], cs)
          else
            (case rune_size s of
               Some n \<Rightarrow> Some (take n s, drop n s)
             | None \<Rightarrow> Some (RuneError, cs)))"

lemma rune_size_pos: "rune_size s = Some n \<Longrightarrow> 0 < n"
  by (cases s rule: rune_size.cases) (auto simp: Let_def split: if_splits)

lemma unquote_step_shorter: "unquote_step s = Some (x, r) \<Longrightarrow> length r < length s"
  by (cases s)
    (auto simp: unquote_step_def dest: rune_size_pos split: if_splits list.splits option.splits)

text \<open>
  A string literal after its opening quote: the string it denotes and the input
  after its closing quote (the scanner's string states and \<^verbatim>\<open>unquote\<close> in one
  pass).
\<close>

function unquote :: "string \<Rightarrow> (string \<times> string) option" where
  "unquote [] = None"
| "unquote (c # cs) =
     (if c = CHR 0x22 then Some ([], cs)
      else
        (case unquote_step (c # cs) of
           None \<Rightarrow> None
         | Some (x, s1) \<Rightarrow> map_option (\<lambda>(t, r). (x @ t, r)) (unquote s1)))"
  by pat_completeness auto
termination
  by (relation "measure length") (auto dest: unquote_step_shorter)

lemma unquote_shorter: "unquote s = Some (t, r) \<Longrightarrow> length r < length s"
proof (induction s arbitrary: t r rule: unquote.induct)
  case 1
  then show ?case by simp
next
  case (2 c cs)
  show ?case
  proof (cases "c = CHR 0x22")
    case True
    with "2.prems" show ?thesis by simp
  next
    case False
    with "2.prems" obtain x s1 t' where st: "unquote_step (c # cs) = Some (x, s1)"
      and u: "unquote s1 = Some (t', r)"
      by (auto split: option.splits)
    have "length r < length s1"
      using "2.IH" False st u by blast
    with unquote_step_shorter [OF st] show ?thesis by simp
  qed
qed

text \<open>A member value: a string literal, or \<^verbatim>\<open>null\<close>, which stores \<^verbatim>\<open>""\<close>.\<close>

definition member_value :: "string \<Rightarrow> (string \<times> string) option" where
  "member_value s =
     (case s of
        [] \<Rightarrow> None
      | c # cs \<Rightarrow>
          if c = CHR 0x22 then unquote cs
          else if take 4 s = ''null'' then Some ([], drop 4 s)
          else None)"

text \<open>One member \<^verbatim>\<open>"key": value\<close>, from the opening quote of its key.\<close>

definition member :: "string \<Rightarrow> ((string \<times> string) \<times> string) option" where
  "member s =
     (case s of
        [] \<Rightarrow> None
      | c # s1 \<Rightarrow>
          if c \<noteq> CHR 0x22 then None
          else
            (case unquote s1 of
               None \<Rightarrow> None
             | Some (k, s2) \<Rightarrow>
                 (case skip_space s2 of
                    [] \<Rightarrow> None
                  | c2 # s3 \<Rightarrow>
                      if c2 \<noteq> CHR '':'' then None
                      else
                        (case member_value (skip_space s3) of
                           None \<Rightarrow> None
                         | Some (v, s4) \<Rightarrow> Some ((k, v), s4)))))"

lemma skip_space_le: "length (skip_space s) \<le> length s"
  by (simp add: skip_space_def length_dropWhile_le)

lemma member_value_shorter: "member_value s = Some (v, r) \<Longrightarrow> length r < length s"
  by (cases s) (auto simp: member_value_def split: if_splits dest: unquote_shorter)

lemma member_shorter:
  assumes "member s = Some (kv, r)"
  shows "length r < length s"
proof -
  from assms obtain c s1 k s2 c2 s3 v where s: "s = c # s1"
    and u: "unquote s1 = Some (k, s2)"
    and sk: "skip_space s2 = c2 # s3"
    and mv: "member_value (skip_space s3) = Some (v, r)"
    by (auto simp: member_def split: list.splits if_splits option.splits)
  have "length r < length (skip_space s3)" using mv by (rule member_value_shorter)
  also have "\<dots> \<le> length s3" by (rule skip_space_le)
  also have "\<dots> < length (skip_space s2)" by (simp add: sk)
  also have "\<dots> \<le> length s2" by (rule skip_space_le)
  also have "\<dots> < length s1" using u by (rule unquote_shorter)
  finally show ?thesis by (simp add: s)
qed

text \<open>
  The members of an object, from the opening quote of the first key to the
  closing brace; each is stored as it is read.
\<close>

function members :: "(string \<rightharpoonup> string) \<Rightarrow> string \<Rightarrow> ((string \<rightharpoonup> string) \<times> string) option" where
  "members m s =
     (case member s of
        None \<Rightarrow> None
      | Some ((k, v), s1) \<Rightarrow>
          (case skip_space s1 of
             [] \<Rightarrow> None
           | c # s2 \<Rightarrow>
               if c = CHR '','' then members (m(k \<mapsto> v)) (skip_space s2)
               else if c = CHR ''}'' then Some (m(k \<mapsto> v), s2)
               else None))"
  by pat_completeness auto
termination
proof (relation "measure (\<lambda>(m, s). length s)")
  show "wf (measure (\<lambda>(m, s). length s))" by simp
next
  fix m :: "string \<rightharpoonup> string" and s x2 x y s1 k v c s2
  assume m: "member s = Some x2" and x2: "(x, s1) = x2" and sk: "skip_space s1 = c # s2"
  from m x2 have "length s1 < length s" by (auto dest: member_shorter)
  moreover have "length (skip_space s2) \<le> length s2" by (rule skip_space_le)
  moreover have "length s2 < length (skip_space s1)" by (simp add: sk)
  moreover have "length (skip_space s1) \<le> length s1" by (rule skip_space_le)
  ultimately show "((m(k \<mapsto> v), skip_space s2), (m, s)) \<in> measure (\<lambda>(m, s). length s)"
    by simp
qed

text \<open>An object after its opening brace.\<close>

definition object :: "string \<Rightarrow> ((string \<rightharpoonup> string) \<times> string) option" where
  "object s =
     (case skip_space s of
        [] \<Rightarrow> None
      | c # s1 \<Rightarrow> if c = CHR ''}'' then Some (Map.empty, s1) else members Map.empty (c # s1))"

definition json_Unmarshal :: "string \<Rightarrow> error + gomap" where
  "json_Unmarshal data =
     (case skip_space data of
        [] \<Rightarrow> Inl JsonError
      | c # s \<Rightarrow>
          if c = CHR ''{'' then
            (case object s of
               None \<Rightarrow> Inl JsonError
             | Some (m, r) \<Rightarrow> if skip_space r = [] then Inr (Map m) else Inl JsonError)
          else if take 4 (c # s) = ''null'' \<and> skip_space (drop 3 s) = [] then Inr NilMap
          else Inl JsonError)"

subsection \<open>The words of the spec: JSON for a mapping from strings to strings\<close>

text \<open>
  The spec speaks of raw parameters that are valid JSON for a string-to-string
  mapping. The recogniser \<open>json_string_map\<close> reads these words by the JSON
  grammar: between optional white space an object, whose members are a
  string literal, a colon and a value, separated by commas; a value is a
  string literal. A string literal holds, between quotes, bytes from
  \<^verbatim>\<open>0x20\<close> on other than the quote and the backslash, and escapes: a
  backslash and one of \<^verbatim>\<open>"\/bfnrt\<close>, or \<^verbatim>\<open>\u\<close> and four hexadecimal
  digits. With \<open>nulls\<close> the recogniser admits \<^verbatim>\<open>null\<close> too, for a value and
  for the whole document. It decodes nothing and builds no map.
\<close>

definition is_hex :: "char \<Rightarrow> bool" where
  "is_hex c \<longleftrightarrow>
     0x30 \<le> byte c \<and> byte c \<le> 0x39 \<or> 0x41 \<le> byte c \<and> byte c \<le> 0x46
     \<or> 0x61 \<le> byte c \<and> byte c \<le> 0x66"

definition is_escape :: "char \<Rightarrow> bool" where
  "is_escape e \<longleftrightarrow>
     e \<in> set [CHR 0x22, CHR 0x5C, CHR ''/'', CHR ''b'', CHR ''f'', CHR ''n'', CHR ''r'', CHR ''t'']"

text \<open>After the opening quote of a string literal: the input after its closing quote.\<close>

fun string_end :: "string \<Rightarrow> string option" where
  "string_end [] = None"
| "string_end (c # cs) =
     (if c = CHR 0x22 then Some cs
      else if c = CHR 0x5C then
        (case cs of
           [] \<Rightarrow> None
         | e # es \<Rightarrow>
             if e = CHR ''u'' then
               (case es of
                  h1 # h2 # h3 # h4 # rest \<Rightarrow>
                    if is_hex h1 \<and> is_hex h2 \<and> is_hex h3 \<and> is_hex h4 then string_end rest
                    else None
                | _ \<Rightarrow> None)
             else if is_escape e then string_end es
             else None)
      else if byte c < 0x20 then None
      else string_end cs)"









text \<open>
  \<^verbatim>\<open>utf8.RuneCountInString\<close>: the number of characters of a string; a byte that
  starts no rune counts as one. The spec gives the limit of the cluster id in
  characters, the code in bytes.
\<close>

fun RuneCount :: "string \<Rightarrow> nat" where
  "RuneCount [] = 0"
| "RuneCount (c # cs) =
     (if byte c < 0x80 then Suc (RuneCount cs)
      else
        (case rune_size (c # cs) of
           Some n \<Rightarrow> Suc (RuneCount (drop (n - 1) cs))
         | None \<Rightarrow> Suc (RuneCount cs)))"

subsection \<open>The Go library: encoding \<^verbatim>\<open>InstanceInformation\<close> as JSON\<close>

record InstanceInformation =
  instance_id :: string  \<comment> \<open>the field \<^verbatim>\<open>InstanceId\<close>, tagged \<^verbatim>\<open>json:"instance_id"\<close>\<close>

definition hex :: "int \<Rightarrow> char" where
  "hex n = ''0123456789abcdef'' ! nat n"

text \<open>
  The body of a JSON string as \<^verbatim>\<open>json.Marshal\<close> writes it (in the Go
  releases before 1.22, which have no short escape for a backspace and a form
  feed): a quote and a backslash are escaped, a line feed, a carriage return
  and a tab have their letters, every other control byte and \<^verbatim>\<open><\<close>, \<^verbatim>\<open>>\<close>, \<^verbatim>\<open>&\<close> are written
  as \<^verbatim>\<open>\u00XX\<close>, a byte that starts no UTF-8 rune as the escape of U+FFFD, and
  U+2028 and U+2029 as their escapes.
\<close>

fun encode_string :: "string \<Rightarrow> string" where
  "encode_string [] = []"
| "encode_string (c # cs) =
     (if byte c < 0x80 then
        (if 0x20 \<le> byte c \<and> c \<notin> set [CHR 0x5C, CHR 0x22, CHR ''<'', CHR ''>'', CHR ''&''] then [c]
         else if c = CHR 0x5C \<or> c = CHR 0x22 then [CHR 0x5C, c]
         else if c = CHR 0x0A then [CHR 0x5C, CHR ''n'']
         else if c = CHR 0x0D then [CHR 0x5C, CHR ''r'']
         else if c = CHR 0x09 then [CHR 0x5C, CHR ''t'']
         else [CHR 0x5C, CHR ''u'', CHR ''0'', CHR ''0'', hex (byte c div 16), hex (byte c mod 16)])
        @ encode_string cs
      else
        (case rune_size (c # cs) of
           None \<Rightarrow> CHR 0x5C # ''ufffd'' @ encode_string cs
         | Some n \<Rightarrow>
             (if take n (c # cs) = [CHR 0xE2, CHR 0x80, CHR 0xA8] then CHR 0x5C # ''u2028''
              else if take n (c # cs) = [CHR 0xE2, CHR 0x80, CHR 0xA9] then CHR 0x5C # ''u2029''
              else take n (c # cs))
             @ encode_string (drop (n - 1) cs)))"

text \<open>\<^verbatim>\<open>json.Marshal(ii)\<close>; encoding a struct of one string field never fails.\<close>

definition json_Marshal :: "InstanceInformation \<Rightarrow> error + string" where
  \<open>json_Marshal ii = Inr (''{"instance_id":"'' @ encode_string (instance_id ii) @ ''"}'')\<close>

subsection \<open>The data of the broker\<close>

text \<open>
  \<^verbatim>\<open>models.ProvisionDetails\<close>, \<^verbatim>\<open>models.PlanDetails\<close> and \<^verbatim>\<open>BigTableBroker\<close>,
  with the fields the two methods read.
\<close>

record ProvisionDetails =
  RawParameters :: string

record PlanDetails =
  Features :: string

record BigTableBroker =
  ProjectId :: string

text \<open>
  Modelled from the spec: the declaration of \<^verbatim>\<open>models.ServiceInstanceDetails\<close>,
  which is not in this file. The spec gives the record the fields \<^verbatim>\<open>Name\<close>,
  \<^verbatim>\<open>Url\<close>, \<^verbatim>\<open>Location\<close> and \<^verbatim>\<open>OtherDetails\<close>; they are the fields that
  \<^verbatim>\<open>Provision\<close> sets and \<^verbatim>\<open>Deprovision\<close> reads.
\<close>

record ServiceInstanceDetails =
  Name :: string
  Url :: string
  Location :: string
  OtherDetails :: string

text \<open>\<^verbatim>\<open>models.ServiceInstanceDetails{}\<close>, the zero value.\<close>

definition zeroServiceInstanceDetails :: ServiceInstanceDetails where
  "zeroServiceInstanceDetails = \<lparr>Name = [], Url = [], Location = [], OtherDetails = []\<rparr>"

text \<open>
  \<^verbatim>\<open>googlebigtable.StorageType\<close> is an \<^verbatim>\<open>int\<close> with the constants
  \<^verbatim>\<open>SSD StorageType = iota\<close> and \<^verbatim>\<open>HDD\<close>; its zero value is \<open>0\<close>.
\<close>

type_synonym StorageType = int

definition SSD :: StorageType where
  "SSD = 0"

definition HDD :: StorageType where
  "HDD = 1"

text \<open>\<^verbatim>\<open>googlebigtable.InstanceConf\<close>; \<^verbatim>\<open>NumNodes\<close> is an \<^verbatim>\<open>int32\<close>.\<close>

record InstanceConf =
  InstanceId :: string
  ClusterId :: string
  NumNodes :: "32 word"
  StorageType :: StorageType
  Zone :: string
  DisplayName :: string

definition StorageTypes :: "string \<rightharpoonup> StorageType" where
  "StorageTypes = [''SSD'' \<mapsto> SSD, ''HDD'' \<mapsto> HDD]"

subsection \<open>The collaborators\<close>

text \<open>
  The calls a method makes outside the package, in the order it makes them: to
  the name generator, to the Bigtable administration client and to the
  database (\<open>First id\<close> is \<^verbatim>\<open>DbConnection.Where("ID = ?", id).First(&instance)\<close>).
\<close>

datatype call =
    InstanceNameWithSeparator string
  | NewInstanceAdminClient string "string option"
  | CreateInstance InstanceConf
  | DeleteInstance string
  | First string

text \<open>
  What the collaborators answer during one call of a method: the name the
  generator returns for a separator, the error (if any) of creating a client
  for a project with an optional user agent, of creating an instance and of
  deleting one, and what the query for an instance id finds. The constant
  \<^verbatim>\<open>models.CustomUserAgent\<close> is declared outside this file.
\<close>

record world =
  CustomUserAgent :: string
  name_generator :: "string \<Rightarrow> string"
  new_admin_client :: "string \<Rightarrow> string option \<Rightarrow> error option"
  create_instance :: "InstanceConf \<Rightarrow> error option"
  delete_instance :: "string \<Rightarrow> error option"
  db_first :: "string \<Rightarrow> error + ServiceInstanceDetails"

subsection \<open>\<^verbatim>\<open>Provision\<close>\<close>

text \<open>Lines 59 to 63: the request parameters; an empty blob is the empty map.\<close>

definition request_params :: "ProvisionDetails \<Rightarrow> error + gomap" where
  "request_params details =
     (if length (RawParameters details) = 0 then Inr (Map Map.empty)
      else json_Unmarshal (RawParameters details))"

text \<open>Lines 66 to 68: a name is generated and stored when the parameters have none.\<close>

definition ensure_name :: "world \<Rightarrow> gomap \<Rightarrow> call list \<times> gomap outcome" where
  "ensure_name w params =
     (case map_lookup params ''name'' of
        Some _ \<Rightarrow> ([], Returned params)
      | None \<Rightarrow>
          ([InstanceNameWithSeparator ''-''], map_assign params ''name'' (name_generator w ''-'')))"

text \<open>Lines 83 to 91: the cluster id.\<close>

definition clusterId :: "gomap \<Rightarrow> string" where
  "clusterId params =
     (let derived =
            (if length (map_index params ''name'') > 20
             then take 20 (map_index params ''name'') @ ''-cluster''
             else map_index params ''name'' @ ''-cluster'')
      in case map_lookup params ''cluster_id'' of
           Some userClusterId \<Rightarrow> userClusterId
         | None \<Rightarrow> derived)"

text \<open>Lines 98 to 101: the zone.\<close>

definition zone :: "gomap \<Rightarrow> string" where
  "zone params =
     (case map_lookup params ''zone'' of
        Some userZone \<Rightarrow> userZone
      | None \<Rightarrow> ''us-east1-b'')"

text \<open>Lines 103 to 106: the display name.\<close>

definition displayName :: "gomap \<Rightarrow> string" where
  "displayName params =
     (case map_lookup params ''display_name'' of
        Some userDisplayName \<Rightarrow> userDisplayName
      | None \<Rightarrow> map_index params ''name'')"

text \<open>
  Lines 108 to 115: the configuration of the instance. \<^verbatim>\<open>int32(numNodes)\<close> keeps
  the low 32 bits; a storage type that is not in the table is the zero value.
\<close>

definition instance_conf :: "gomap \<Rightarrow> gomap \<Rightarrow> int \<Rightarrow> InstanceConf" where
  "instance_conf params planDetails numNodes =
     \<lparr>InstanceId = map_index params ''name'',
      ClusterId = clusterId params,
      NumNodes = word_of_int numNodes,
      StorageType =
        (case StorageTypes (map_index planDetails ''storage_type'') of
           None \<Rightarrow> 0
         | Some t \<Rightarrow> t),
      Zone = zone params,
      DisplayName = displayName params\<rparr>"

text \<open>
  \<^verbatim>\<open>Provision\<close>: the calls it makes, and the pair it returns (or the panic it
  ends in).
\<close>

definition Provision ::
  "world \<Rightarrow> BigTableBroker \<Rightarrow> string \<Rightarrow> ProvisionDetails \<Rightarrow> PlanDetails \<Rightarrow>
   call list \<times> (ServiceInstanceDetails \<times> error option) outcome" where
  "Provision w b instanceId details plan =
     (case request_params details of
        Inl err \<Rightarrow>
          ([], Returned (zeroServiceInstanceDetails,
                 Some (Errorf ''Error unmarshalling parameters: '' err)))
      | Inr params0 \<Rightarrow>
     (case ensure_name w params0 of
        (cs1, Panic msg) \<Rightarrow> (cs1, Panic msg)
      | (cs1, Returned params) \<Rightarrow>
     (case json_Unmarshal (Features plan) of
        Inl err \<Rightarrow>
          (cs1, Returned (zeroServiceInstanceDetails,
                  Some (Errorf ''Error unmarshalling plan features: '' err)))
      | Inr planDetails \<Rightarrow>
     (let cs2 = cs1 @ [NewInstanceAdminClient (ProjectId b) (Some (CustomUserAgent w))] in
      case new_admin_client w (ProjectId b) (Some (CustomUserAgent w)) of
        Some err \<Rightarrow>
          (cs2, Returned (zeroServiceInstanceDetails,
                  Some (Errorf ''Error creating bigtable client: '' err)))
      | None \<Rightarrow>
     (case Atoi (map_index planDetails ''num_nodes'') of
        Inl err \<Rightarrow>
          (cs2, Returned (zeroServiceInstanceDetails,
                  Some (Errorf ''Error converting num_nodes to int: '' err)))
      | Inr numNodes \<Rightarrow>
     (let ic = instance_conf params planDetails numNodes;
          cs3 = cs2 @ [CreateInstance ic] in
      case create_instance w ic of
        Some err \<Rightarrow>
          (cs3, Returned (zeroServiceInstanceDetails,
                  Some (Errorf ''Error creating new instance: '' err)))
      | None \<Rightarrow>
     (case json_Marshal \<lparr>instance_id = map_index params ''name''\<rparr> of
        Inl err \<Rightarrow>
          (cs3, Returned (zeroServiceInstanceDetails,
                  Some (Errorf ''Error marshalling other details: '' err)))
      | Inr otherDetails \<Rightarrow>
          (cs3, Returned
                  (\<lparr>Name = map_index params ''name'', Url = [], Location = [],
                    OtherDetails = otherDetails\<rparr>, None)))))))))"

subsection \<open>\<^verbatim>\<open>Deprovision\<close>\<close>

text \<open>
  \<^verbatim>\<open>Deprovision\<close>: the calls it makes and the error it returns. Its argument
  \<^verbatim>\<open>details\<close> is never read.
\<close>

definition Deprovision ::
  "world \<Rightarrow> BigTableBroker \<Rightarrow> string \<Rightarrow> 'details \<Rightarrow> call list \<times> error option" where
  "Deprovision w b instanceID details =
     (let cs1 = [NewInstanceAdminClient (ProjectId b) None] in
      case new_admin_client w (ProjectId b) None of
        Some err \<Rightarrow> (cs1, Some (Errorf ''Error creating BigQuery client: '' err))
      | None \<Rightarrow>
     (let cs2 = cs1 @ [First instanceID] in
      case db_first w instanceID of
        Inl err \<Rightarrow> (cs2, Some ErrInstanceDoesNotExist)
      | Inr instance \<Rightarrow>
     (let cs3 = cs2 @ [DeleteInstance (Name instance)] in
      case delete_instance w (Name instance) of
        Some err \<Rightarrow> (cs3, Some (Errorf ''Error deleting dataset: '' err))
      | None \<Rightarrow> (cs3, None))))"

subsection \<open>\<^verbatim>\<open>MapPlan\<close>\<close>

definition MapPlan :: "gomap \<Rightarrow> gomap" where
  "MapPlan details =
     Map [''num_nodes'' \<mapsto> map_index details ''num_nodes'',
          ''storage_type'' \<mapsto> map_index details ''storage_type'']"

subsection \<open>Example environments\<close>

text \<open>
  Four environments for running the methods on concrete inputs: one where
  every collaborator succeeds and the database holds the record of
  \<^verbatim>\<open>guid-1\<close>, whose name is \<^verbatim>\<open>foo\<close>; one where no client can be created;
  one where every database query fails; one where creating an instance
  fails. A broker and the plan of the provisioning example.
\<close>

definition world_up :: world where
  "world_up =
     \<lparr>CustomUserAgent = ''gcp-service-broker'',
      name_generator = (\<lambda>sep. ''pcf'' @ sep @ ''instance''),
      new_admin_client = (\<lambda>project agent. None),
      create_instance = (\<lambda>ic. None),
      delete_instance = (\<lambda>name. None),
      db_first =
        (\<lambda>instanceID.
           if instanceID = ''guid-1''
           then Inr \<lparr>Name = ''foo'', Url = [], Location = [], OtherDetails = []\<rparr>
           else Inl ErrRecordNotFound)\<rparr>"

definition world_no_client :: world where
  "world_no_client =
     world_up\<lparr>new_admin_client :=
       (\<lambda>project agent. Some (ErrorString ''could not find default credentials''))\<rparr>"

definition world_db_down :: world where
  "world_db_down = world_up\<lparr>db_first := (\<lambda>instanceID. Inl (ErrorString ''connection refused''))\<rparr>"

definition world_create_fails :: world where
  "world_create_fails =
     world_up\<lparr>create_instance := (\<lambda>ic. Some (ErrorString ''instance already exists''))\<rparr>"

definition broker :: BigTableBroker where
  "broker = \<lparr>ProjectId = ''my-project''\<rparr>"

definition plan_3_SSD :: PlanDetails where
  \<open>plan_3_SSD = \<lparr>Features = ''{"num_nodes":"3","storage_type":"SSD"}''\<rparr>\<close>

text \<open>Request parameters with a name of 26 bytes, without and with a cluster id.\<close>

definition long_name_params :: ProvisionDetails where
  \<open>long_name_params = \<lparr>RawParameters = ''{"name":"abcdefghijklmnopqrstuvwxyz"}''\<rparr>\<close>

definition cluster_id_params :: ProvisionDetails where
  \<open>cluster_id_params =
     \<lparr>RawParameters = ''{"name":"abcdefghijklmnopqrstuvwxyz","cluster_id":"c1"}''\<rparr>\<close>

text \<open>
  The request parameters of the provisioning example, empty ones and ones cut
  short; plans for 4 nodes on HDD, for a node count that is no number, for a
  storage type that is not in the table and for none at all.
\<close>

definition mytable_params :: ProvisionDetails where
  \<open>mytable_params = \<lparr>RawParameters = ''{"name":"mytable"}''\<rparr>\<close>

definition plan_4_HDD :: PlanDetails where
  \<open>plan_4_HDD = \<lparr>Features = ''{"num_nodes":"4","storage_type":"HDD"}''\<rparr>\<close>

definition plan_abc :: PlanDetails where
  \<open>plan_abc = \<lparr>Features = ''{"num_nodes":"abc","storage_type":"SSD"}''\<rparr>\<close>

definition plan_NVME :: PlanDetails where
  \<open>plan_NVME = \<lparr>Features = ''{"num_nodes":"3","storage_type":"NVME"}''\<rparr>\<close>

definition plan_no_storage_type :: PlanDetails where
  \<open>plan_no_storage_type = \<lparr>Features = ''{"num_nodes":"3"}''\<rparr>\<close>

definition empty_params :: ProvisionDetails where
  "empty_params = \<lparr>RawParameters = []\<rparr>"


text \<open>
  Raw parameters that are the literal \<^verbatim>\<open>null\<close>, parameters with a zone and a
  display name, and a plan whose node count does not fit 32 bits.
\<close>

definition null_params :: ProvisionDetails where
  "null_params = \<lparr>RawParameters = ''null''\<rparr>"

definition zone_params :: ProvisionDetails where
  \<open>zone_params =
     \<lparr>RawParameters = ''{"name":"mytable","zone":"europe-west1-c","display_name":"My table"}''\<rparr>\<close>

definition plan_wide :: PlanDetails where
  \<open>plan_wide = \<lparr>Features = ''{"num_nodes":"4294967300","storage_type":"SSD"}''\<rparr>\<close>

text \<open>
  A name of eleven characters in 22 bytes (eleven times U+00E9) with its
  request parameters, and request parameters whose name is \<^verbatim>\<open>null\<close>.
\<close>

definition accents_name :: string where
  "accents_name =
     [CHR 0xC3, CHR 0xA9, CHR 0xC3, CHR 0xA9, CHR 0xC3, CHR 0xA9, CHR 0xC3, CHR 0xA9,
      CHR 0xC3, CHR 0xA9, CHR 0xC3, CHR 0xA9, CHR 0xC3, CHR 0xA9, CHR 0xC3, CHR 0xA9,
      CHR 0xC3, CHR 0xA9, CHR 0xC3, CHR 0xA9, CHR 0xC3, CHR 0xA9]"

definition accents_params :: ProvisionDetails where
  \<open>accents_params = \<lparr>RawParameters = ''{"name":"'' @ accents_name @ ''"}''\<rparr>\<close>


section \<open>Properties\<close>

subsection \<open>Evaluating the library on the inputs of the examples\<close>

lemmas json_eval = json_Unmarshal_def skip_space_def is_space_def object_def member_def
  member_value_def unquote_step_def byte_def


lemma unmarshal_name_mytable:
  \<open>json_Unmarshal ''{"name":"mytable"}'' = Inr (Map [''name'' \<mapsto> ''mytable''])\<close>
  by (simp add: json_eval)

lemma unmarshal_instance_id_mytable:
  \<open>json_Unmarshal ''{"instance_id":"mytable"}'' = Inr (Map [''instance_id'' \<mapsto> ''mytable''])\<close>
  by (simp add: json_eval)

lemma unmarshal_features_3_SSD:
  \<open>json_Unmarshal ''{"num_nodes":"3","storage_type":"SSD"}'' =
     Inr (Map [''num_nodes'' \<mapsto> ''3'', ''storage_type'' \<mapsto> ''SSD''])\<close>
  by (simp add: json_eval)

lemma marshal_mytable:
  \<open>json_Marshal \<lparr>instance_id = ''mytable''\<rparr> = Inr ''{"instance_id":"mytable"}''\<close>
  by (simp add: json_Marshal_def byte_def)

lemma Atoi_3: "Atoi ''3'' = Inr 3"
  by (simp add: Atoi_def is_digit_def byte_def)

lemma Atoi_4: "Atoi ''4'' = Inr 4"
  by (simp add: Atoi_def is_digit_def byte_def)

lemma Atoi_abc: "Atoi ''abc'' = Inl (NumError ''abc'' ErrSyntax)"
  by (simp add: Atoi_def is_digit_def byte_def)

lemma ensure_name_calls:
  "ensure_name w params0 = (cs, r) \<Longrightarrow> cs = [] \<or> cs = [InstanceNameWithSeparator ''-'']"
  by (auto simp: ensure_name_def split: option.splits)

lemma ensure_name_Returned:
  assumes "ensure_name w params0 = (cs, Returned params)"
  shows "map_index params ''name'' =
           (case map_lookup params0 ''name'' of Some n \<Rightarrow> n | None \<Rightarrow> name_generator w ''-'')"
    and "k \<noteq> ''name'' \<Longrightarrow> map_lookup params k = map_lookup params0 k"
  using assms
  by (cases params0; auto simp: ensure_name_def map_index_def split: option.splits)+

lemma json_Marshal_Inr: "\<exists>s. json_Marshal ii = Inr s"
  by (simp add: json_Marshal_def)

subsection \<open>The decoder and the grammar\<close>









lemma string_end_u:
  assumes "is_hex h1" "is_hex h2" "is_hex h3" "is_hex h4"
  shows "string_end (CHR 0x5C # CHR ''u'' # h1 # h2 # h3 # h4 # rest) = string_end rest"
  using assms by simp







declare members.simps [simp del]


declare members.simps [simp]









subsection \<open>The paths of \<^verbatim>\<open>Provision\<close>\<close>

text \<open>The run of Provision once the parameters are resolved and the client exists.\<close>

lemma Provision_create_calls:
  assumes "request_params details = Inr params0"
    and "ensure_name w params0 = (cs1, Returned params)"
    and "json_Unmarshal (Features plan) = Inr planDetails"
    and "new_admin_client w (ProjectId b) (Some (CustomUserAgent w)) = None"
    and "Atoi (map_index planDetails ''num_nodes'') = Inr numNodes"
  shows "fst (Provision w b instanceId details plan) =
    cs1 @ [NewInstanceAdminClient (ProjectId b) (Some (CustomUserAgent w)),
           CreateInstance (instance_conf params planDetails numNodes)]"
  using assms
  by (simp add: Provision_def Let_def json_Marshal_def split: option.splits)

lemma Provision_create_ok:
  assumes "request_params details = Inr params0"
    and "ensure_name w params0 = (cs1, Returned params)"
    and "json_Unmarshal (Features plan) = Inr planDetails"
    and "new_admin_client w (ProjectId b) (Some (CustomUserAgent w)) = None"
    and "Atoi (map_index planDetails ''num_nodes'') = Inr numNodes"
    and "create_instance w (instance_conf params planDetails numNodes) = None"
    and "json_Marshal \<lparr>instance_id = map_index params ''name''\<rparr> = Inr otherDetails"
  shows "snd (Provision w b instanceId details plan) =
    Returned (\<lparr>Name = map_index params ''name'', Url = [], Location = [],
               OtherDetails = otherDetails\<rparr>, None)"
  using assms
  by (simp add: Provision_def Let_def)

lemma Provision_create_failed:
  assumes "request_params details = Inr params0"
    and "ensure_name w params0 = (cs1, Returned params)"
    and "json_Unmarshal (Features plan) = Inr planDetails"
    and "new_admin_client w (ProjectId b) (Some (CustomUserAgent w)) = None"
    and "Atoi (map_index planDetails ''num_nodes'') = Inr numNodes"
    and "create_instance w (instance_conf params planDetails numNodes) = Some err"
  shows "snd (Provision w b instanceId details plan) =
    Returned (zeroServiceInstanceDetails, Some (Errorf ''Error creating new instance: '' err))"
  using assms
  by (simp add: Provision_def Let_def)

lemma Provision_CreateInstanceE:
  assumes "CreateInstance ic \<in> set (fst (Provision w b instanceId details plan))"
  obtains params0 cs1 params planDetails numNodes where
    "request_params details = Inr params0"
    "ensure_name w params0 = (cs1, Returned params)"
    "json_Unmarshal (Features plan) = Inr planDetails"
    "new_admin_client w (ProjectId b) (Some (CustomUserAgent w)) = None"
    "Atoi (map_index planDetails ''num_nodes'') = Inr numNodes"
    "ic = instance_conf params planDetails numNodes"
  using assms
  by (auto simp: Provision_def Let_def
      split: sum.splits prod.splits outcome.splits option.splits
      dest: ensure_name_calls)

lemma Provision_succeededE:
  assumes "snd (Provision w b instanceId details plan) = Returned (sid, None)"
  obtains params0 cs1 params planDetails numNodes where
    "request_params details = Inr params0"
    "ensure_name w params0 = (cs1, Returned params)"
    "json_Unmarshal (Features plan) = Inr planDetails"
    "new_admin_client w (ProjectId b) (Some (CustomUserAgent w)) = None"
    "Atoi (map_index planDetails ''num_nodes'') = Inr numNodes"
    "create_instance w (instance_conf params planDetails numNodes) = None"
  using assms
  by (auto simp: Provision_def Let_def
      split: sum.splits prod.splits outcome.splits option.splits)

lemma Provision_conversion_error:
  assumes "request_params details = Inr params0"
    and "ensure_name w params0 = (cs1, Returned params)"
    and "json_Unmarshal (Features plan) = Inr planDetails"
    and "new_admin_client w (ProjectId b) (Some (CustomUserAgent w)) = None"
    and "Atoi (map_index planDetails ''num_nodes'') = Inl err"
  shows "Provision w b instanceId details plan =
    (cs1 @ [NewInstanceAdminClient (ProjectId b) (Some (CustomUserAgent w))],
     Returned (zeroServiceInstanceDetails,
       Some (Errorf ''Error converting num_nodes to int: '' err)))"
  using assms by (simp add: Provision_def Let_def)





lemma Provision_errorE:
  assumes "Provision w b instanceId details plan = (cs, Returned (sid, Some err))"
  obtains (parameters) cause where "sid = zeroServiceInstanceDetails"
      "err = Errorf ''Error unmarshalling parameters: '' cause"
    | (features) cause where "sid = zeroServiceInstanceDetails"
      "err = Errorf ''Error unmarshalling plan features: '' cause"
    | (client) cause where "sid = zeroServiceInstanceDetails"
      "err = Errorf ''Error creating bigtable client: '' cause"
    | (num_nodes) cause where "sid = zeroServiceInstanceDetails"
      "err = Errorf ''Error converting num_nodes to int: '' cause"
    | (create) cause where "sid = zeroServiceInstanceDetails"
      "err = Errorf ''Error creating new instance: '' cause"
    | (marshal) cause where "sid = zeroServiceInstanceDetails"
      "err = Errorf ''Error marshalling other details: '' cause"
proof (cases "request_params details")
  case (Inl cause)
  with assms parameters show ?thesis
    by (auto simp: Provision_def)
next
  case params0: (Inr params0)
  obtain cs1 r where named: "ensure_name w params0 = (cs1, r)"
    by (cases "ensure_name w params0")
  show ?thesis
  proof (cases r)
    case (Panic msg)
    with assms params0 named show ?thesis
      by (auto simp: Provision_def)
  next
    case params: (Returned params)
    show ?thesis
    proof (cases "json_Unmarshal (Features plan)")
      case (Inl cause)
      with assms params0 named params features show ?thesis
        by (auto simp: Provision_def)
    next
      case planDetails: (Inr planDetails)
      show ?thesis
      proof (cases "new_admin_client w (ProjectId b) (Some (CustomUserAgent w))")
        case (Some cause)
        with assms params0 named params planDetails client show ?thesis
          by (auto simp: Provision_def)
      next
        case no_error: None
        show ?thesis
        proof (cases "Atoi (map_index planDetails ''num_nodes'')")
          case (Inl cause)
          with assms params0 named params planDetails no_error num_nodes show ?thesis
            by (auto simp: Provision_def)
        next
          case numNodes: (Inr numNodes)
          show ?thesis
          proof (cases "create_instance w (instance_conf params planDetails numNodes)")
            case (Some cause)
            with assms params0 named params planDetails no_error numNodes create show ?thesis
              by (auto simp: Provision_def)
          next
            case None
            with assms params0 named params planDetails no_error numNodes show ?thesis
              by (auto simp: Provision_def json_Marshal_def)
          qed
        qed
      qed
    qed
  qed
qed

lemma Provision_client_error:
  assumes "request_params details = Inr params0"
    and "ensure_name w params0 = (cs1, Returned params)"
    and "json_Unmarshal (Features plan) = Inr planDetails"
    and "new_admin_client w (ProjectId b) (Some (CustomUserAgent w)) = Some cause"
  shows "Provision w b instanceId details plan =
    (cs1 @ [NewInstanceAdminClient (ProjectId b) (Some (CustomUserAgent w))],
     Returned (zeroServiceInstanceDetails,
       Some (Errorf ''Error creating bigtable client: '' cause)))"
  using assms by (simp add: Provision_def Let_def)

lemma Provision_params_error:
  assumes "request_params details = Inl cause"
  shows "Provision w b instanceId details plan =
    ([], Returned (zeroServiceInstanceDetails,
           Some (Errorf ''Error unmarshalling parameters: '' cause)))"
  using assms by (simp add: Provision_def)

lemma Provision_panic:
  assumes "request_params details = Inr params0"
    and "ensure_name w params0 = (cs1, Panic msg)"
  shows "Provision w b instanceId details plan = (cs1, Panic msg)"
  using assms by (simp add: Provision_def)

lemmas provision_eval = request_params_def ensure_name_def instance_conf_def clusterId_def
  zone_def displayName_def map_index_def StorageTypes_def SSD_def HDD_def

subsection \<open>The examples, evaluated\<close>

lemma request_long_name:
  "request_params long_name_params = Inr (Map [''name'' \<mapsto> ''abcdefghijklmnopqrstuvwxyz''])"
  by (simp add: request_params_def long_name_params_def json_eval)

lemma request_cluster_id:
  "request_params cluster_id_params =
     Inr (Map [''name'' \<mapsto> ''abcdefghijklmnopqrstuvwxyz'', ''cluster_id'' \<mapsto> ''c1''])"
  by (simp add: request_params_def cluster_id_params_def json_eval)

lemma features_plan_3_SSD:
  "json_Unmarshal (Features plan_3_SSD) =
     Inr (Map [''num_nodes'' \<mapsto> ''3'', ''storage_type'' \<mapsto> ''SSD''])"
  by (simp add: plan_3_SSD_def unmarshal_features_3_SSD)

lemma client_world_up: "new_admin_client world_up p a = None"
  by (simp add: world_up_def)

lemma request_mytable: "request_params mytable_params = Inr (Map [''name'' \<mapsto> ''mytable''])"
  by (simp add: request_params_def mytable_params_def unmarshal_name_mytable)

lemma named_mytable:
  "ensure_name w (Map [''name'' \<mapsto> ''mytable'']) = ([], Returned (Map [''name'' \<mapsto> ''mytable'']))"
  by (simp add: ensure_name_def)

lemma features_plan_4_HDD:
  "json_Unmarshal (Features plan_4_HDD) =
     Inr (Map [''num_nodes'' \<mapsto> ''4'', ''storage_type'' \<mapsto> ''HDD''])"
  by (simp add: plan_4_HDD_def json_eval)

lemma features_plan_abc:
  "json_Unmarshal (Features plan_abc) =
     Inr (Map [''num_nodes'' \<mapsto> ''abc'', ''storage_type'' \<mapsto> ''SSD''])"
  by (simp add: plan_abc_def json_eval)

lemma features_plan_NVME:
  "json_Unmarshal (Features plan_NVME) =
     Inr (Map [''num_nodes'' \<mapsto> ''3'', ''storage_type'' \<mapsto> ''NVME''])"
  by (simp add: plan_NVME_def json_eval)

lemma features_plan_no_storage_type:
  "json_Unmarshal (Features plan_no_storage_type) = Inr (Map [''num_nodes'' \<mapsto> ''3''])"
  by (simp add: plan_no_storage_type_def json_eval)

lemma calls_mytable_plan_4_HDD:
  "fst (Provision world_up broker ''guid-1'' mytable_params plan_4_HDD) =
     [NewInstanceAdminClient ''my-project'' (Some ''gcp-service-broker''),
      CreateInstance
        \<lparr>InstanceId = ''mytable'', ClusterId = ''mytable-cluster'', NumNodes = 4,
         StorageType = HDD, Zone = ''us-east1-b'', DisplayName = ''mytable''\<rparr>]"
proof -
  have "Atoi (map_index (Map [''num_nodes'' \<mapsto> ''4'', ''storage_type'' \<mapsto> ''HDD'']) ''num_nodes'') = Inr 4"
    by (simp add: map_index_def Atoi_4)
  from Provision_create_calls [OF request_mytable named_mytable features_plan_4_HDD client_world_up this]
  show ?thesis
    by (simp add: provision_eval broker_def world_up_def)
qed

lemma unmarshal_malformed: \<open>json_Unmarshal ''{"name":'' = Inl JsonError\<close>
  by (simp add: json_eval)

lemma unmarshal_null: "json_Unmarshal ''null'' = Inr NilMap"
  by (simp add: json_eval)

lemma request_zone:
  "request_params zone_params =
     Inr (Map [''name'' \<mapsto> ''mytable'', ''zone'' \<mapsto> ''europe-west1-c'',
               ''display_name'' \<mapsto> ''My table''])"
  by (simp add: request_params_def zone_params_def json_eval)

lemma Atoi_wide: "Atoi ''4294967300'' = Inr 4294967300"
  by (simp add: Atoi_def is_digit_def byte_def)

lemma features_plan_wide:
  "json_Unmarshal (Features plan_wide) =
     Inr (Map [''num_nodes'' \<mapsto> ''4294967300'', ''storage_type'' \<mapsto> ''SSD''])"
  by (simp add: plan_wide_def json_eval)

lemma RuneCount_accents_name: "RuneCount accents_name = 11 \<and> RuneCount (take 20 accents_name) = 10"
  by (simp add: accents_name_def byte_def is_cont_def)

lemma request_accents: "request_params accents_params = Inr (Map [''name'' \<mapsto> accents_name])"
  by (simp add: request_params_def accents_params_def accents_name_def json_eval is_cont_def)



subsection \<open>The provisioning example\<close>

text \<open>
  C1. A \<^verbatim>\<open>Provision\<close> call with raw parameters \<^verbatim>\<open>{"name":"mytable"}\<close> and plan
  features \<^verbatim>\<open>{"num_nodes":"3","storage_type":"SSD"}\<close>: every create-instance
  call it issues carries the instance name \<^verbatim>\<open>mytable\<close>, the cluster id
  \<^verbatim>\<open>mytable-cluster\<close>, the zone \<^verbatim>\<open>us-east1-b\<close> and the display name
  \<^verbatim>\<open>mytable\<close> (with 3 nodes on SSD); once the client exists that call is the
  one call after the client's creation; and when the create succeeds the
  returned details have the name \<^verbatim>\<open>mytable\<close>, an empty url and location, and
  other details that decode to \<^verbatim>\<open>{"instance_id":"mytable"}\<close>.
\<close>

theorem Provision_mytable:
  assumes raw: \<open>RawParameters details = ''{"name":"mytable"}''\<close>
    and features: \<open>Features plan = ''{"num_nodes":"3","storage_type":"SSD"}''\<close>
  shows \<open>(\<forall>ic. CreateInstance ic \<in> set (fst (Provision w b instanceId details plan)) \<longrightarrow>
            ic = \<lparr>InstanceId = ''mytable'', ClusterId = ''mytable-cluster'', NumNodes = 3,
                  StorageType = SSD, Zone = ''us-east1-b'', DisplayName = ''mytable''\<rparr>)
        \<and> (new_admin_client w (ProjectId b) (Some (CustomUserAgent w)) = None \<longrightarrow>
             fst (Provision w b instanceId details plan) =
               [NewInstanceAdminClient (ProjectId b) (Some (CustomUserAgent w)),
                CreateInstance
                  \<lparr>InstanceId = ''mytable'', ClusterId = ''mytable-cluster'', NumNodes = 3,
                   StorageType = SSD, Zone = ''us-east1-b'', DisplayName = ''mytable''\<rparr>]
           \<and> (create_instance w
                  \<lparr>InstanceId = ''mytable'', ClusterId = ''mytable-cluster'', NumNodes = 3,
                   StorageType = SSD, Zone = ''us-east1-b'', DisplayName = ''mytable''\<rparr> = None \<longrightarrow>
                snd (Provision w b instanceId details plan) =
                  Returned (\<lparr>Name = ''mytable'', Url = [], Location = [],
                             OtherDetails = ''{"instance_id":"mytable"}''\<rparr>, None)))
        \<and> json_Unmarshal ''{"instance_id":"mytable"}'' = Inr (Map [''instance_id'' \<mapsto> ''mytable''])\<close>
proof -
  let ?params = "Map [''name'' \<mapsto> ''mytable'']"
  let ?planDetails = "Map [''num_nodes'' \<mapsto> ''3'', ''storage_type'' \<mapsto> ''SSD'']"
  let ?ic = "\<lparr>InstanceId = ''mytable'', ClusterId = ''mytable-cluster'', NumNodes = 3,
              StorageType = SSD, Zone = ''us-east1-b'', DisplayName = ''mytable''\<rparr>"
  have params0: "request_params details = Inr ?params"
    by (simp add: request_params_def raw unmarshal_name_mytable)
  have named: "ensure_name w ?params = ([], Returned ?params)"
    by (simp add: ensure_name_def)
  have planDetails: "json_Unmarshal (Features plan) = Inr ?planDetails"
    by (simp add: features unmarshal_features_3_SSD)
  have numNodes: "Atoi (map_index ?planDetails ''num_nodes'') = Inr 3"
    by (simp add: map_index_def Atoi_3)
  have ic: "instance_conf ?params ?planDetails 3 = ?ic"
    by (simp add: provision_eval)
  have every: "ic = ?ic" if "CreateInstance ic \<in> set (fst (Provision w b instanceId details plan))" for ic
    using that
  proof (rule Provision_CreateInstanceE)
    fix params0 cs1 params planDetails' numNodes'
    assume "request_params details = Inr params0" "ensure_name w params0 = (cs1, Returned params)"
      "json_Unmarshal (Features plan) = Inr planDetails'"
      "Atoi (map_index planDetails' ''num_nodes'') = Inr numNodes'"
      "ic = instance_conf params planDetails' numNodes'"
    with params0 named planDetails numNodes ic show "ic = ?ic" by simp
  qed
  have calls: "fst (Provision w b instanceId details plan) =
      [NewInstanceAdminClient (ProjectId b) (Some (CustomUserAgent w)), CreateInstance ?ic]"
    if "new_admin_client w (ProjectId b) (Some (CustomUserAgent w)) = None"
    using Provision_create_calls [OF params0 named planDetails that numNodes, of instanceId]
    by (simp add: ic)
  have returned: "snd (Provision w b instanceId details plan) =
      Returned (\<lparr>Name = ''mytable'', Url = [], Location = [],
                 OtherDetails = ''{\"instance_id\":\"mytable\"}''\<rparr>, None)"
    if client: "new_admin_client w (ProjectId b) (Some (CustomUserAgent w)) = None"
      and created: "create_instance w ?ic = None"
  proof -
    have name: "map_index ?params ''name'' = ''mytable''"
      by (simp add: map_index_def)
    have "create_instance w (instance_conf ?params ?planDetails 3) = None"
      using created by (simp only: ic)
    moreover have "json_Marshal \<lparr>instance_id = map_index ?params ''name''\<rparr> =
        Inr ''{\"instance_id\":\"mytable\"}''"
      by (simp only: name marshal_mytable)
    ultimately show ?thesis
      using Provision_create_ok [OF params0 named planDetails client numNodes, of _ instanceId]
      by (simp only: name)
  qed
  from every calls returned unmarshal_instance_id_mytable show ?thesis
    by (intro conjI allI impI) blast+
qed

theorem Provision_mytable_witness:
  \<open>Provision world_up broker ''guid-1'' \<lparr>RawParameters = ''{"name":"mytable"}''\<rparr> plan_3_SSD =
     ([NewInstanceAdminClient ''my-project'' (Some ''gcp-service-broker''),
       CreateInstance
         \<lparr>InstanceId = ''mytable'', ClusterId = ''mytable-cluster'', NumNodes = 3,
          StorageType = SSD, Zone = ''us-east1-b'', DisplayName = ''mytable''\<rparr>],
      Returned (\<lparr>Name = ''mytable'', Url = [], Location = [],
                 OtherDetails = ''{"instance_id":"mytable"}''\<rparr>, None))\<close>
proof -
  have raw: \<open>RawParameters \<lparr>RawParameters = ''{"name":"mytable"}''\<rparr> = ''{"name":"mytable"}''\<close>
    by simp
  have features: \<open>Features plan_3_SSD = ''{"num_nodes":"3","storage_type":"SSD"}''\<close>
    by (simp add: plan_3_SSD_def)
  from Provision_mytable [OF raw features, of world_up broker "''guid-1''", THEN conjunct2, THEN conjunct1]
  show ?thesis
    by (simp add: world_up_def broker_def prod_eq_iff)
qed

subsection \<open>The cluster id\<close>

text \<open>
  C2, as the code has it. The code measures the name in bytes, not in
  characters. When the request parameters supply no \<^verbatim>\<open>cluster_id\<close>, every
  create-instance call that \<^verbatim>\<open>Provision\<close> issues carries the resolved instance
  name (the \<^verbatim>\<open>name\<close> parameter, or else the generated name) and a cluster id
  derived from it: the first 20 bytes of the name followed by \<^verbatim>\<open>-cluster\<close>
  when the name is longer than 20 bytes, the whole name followed by
  \<^verbatim>\<open>-cluster\<close> otherwise. A name of eleven characters in 22 bytes is cut to
  ten characters, where the claim in characters keeps it whole.
\<close>

theorem derived_cluster_id:
  assumes "request_params details = Inr params0"
    and "map_lookup params0 ''cluster_id'' = None"
    and "CreateInstance ic \<in> set (fst (Provision w b instanceId details plan))"
  shows "InstanceId ic =
           (case map_lookup params0 ''name'' of Some n \<Rightarrow> n | None \<Rightarrow> name_generator w ''-'')
       \<and> ClusterId ic =
           (if length (InstanceId ic) > 20 then take 20 (InstanceId ic) @ ''-cluster''
            else InstanceId ic @ ''-cluster'')"
  using assms(3)
proof (rule Provision_CreateInstanceE)
  fix params0' cs1 params planDetails numNodes
  assume "request_params details = Inr params0'"
    and named: "ensure_name w params0' = (cs1, Returned params)"
    and ic: "ic = instance_conf params planDetails numNodes"
  with assms(1) have named: "ensure_name w params0 = (cs1, Returned params)"
    by simp
  have "map_lookup params ''cluster_id'' = None"
    using ensure_name_Returned(2) [OF named, of "''cluster_id''"] assms(2) by simp
  then show ?thesis
    using ensure_name_Returned(1) [OF named]
    by (simp add: ic instance_conf_def clusterId_def)
qed

theorem derived_cluster_id_witness:
  "request_params long_name_params = Inr (Map [''name'' \<mapsto> ''abcdefghijklmnopqrstuvwxyz''])
   \<and> map_lookup (Map [''name'' \<mapsto> ''abcdefghijklmnopqrstuvwxyz'']) ''cluster_id'' = None
   \<and> CreateInstance
        \<lparr>InstanceId = ''abcdefghijklmnopqrstuvwxyz'', ClusterId = ''abcdefghijklmnopqrst-cluster'',
         NumNodes = 3, StorageType = SSD, Zone = ''us-east1-b'',
         DisplayName = ''abcdefghijklmnopqrstuvwxyz''\<rparr>
       \<in> set (fst (Provision world_up broker ''guid-1'' long_name_params plan_3_SSD))
   \<and> ClusterId
        \<lparr>InstanceId = ''abcdefghijklmnopqrstuvwxyz'', ClusterId = ''abcdefghijklmnopqrst-cluster'',
         NumNodes = 3, StorageType = SSD, Zone = ''us-east1-b'',
         DisplayName = ''abcdefghijklmnopqrstuvwxyz''\<rparr> =
       take 20 ''abcdefghijklmnopqrstuvwxyz'' @ ''-cluster''"
proof -
  let ?params = "Map [''name'' \<mapsto> ''abcdefghijklmnopqrstuvwxyz'']"
  let ?ic = "\<lparr>InstanceId = ''abcdefghijklmnopqrstuvwxyz'',
      ClusterId = ''abcdefghijklmnopqrst-cluster'', NumNodes = 3, StorageType = SSD,
      Zone = ''us-east1-b'', DisplayName = ''abcdefghijklmnopqrstuvwxyz''\<rparr>"
  have absent: "map_lookup ?params ''cluster_id'' = None"
    by simp
  have named: "ensure_name world_up ?params = ([], Returned ?params)"
    by (simp add: ensure_name_def)
  have numNodes:
    "Atoi (map_index (Map [''num_nodes'' \<mapsto> ''3'', ''storage_type'' \<mapsto> ''SSD'']) ''num_nodes'') = Inr 3"
    by (simp add: map_index_def Atoi_3)
  have "fst (Provision world_up broker ''guid-1'' long_name_params plan_3_SSD) =
      [NewInstanceAdminClient (ProjectId broker) (Some (CustomUserAgent world_up)), CreateInstance ?ic]"
    using Provision_create_calls [OF request_long_name named features_plan_3_SSD client_world_up numNodes]
    by (simp add: provision_eval)
  then have issued: "CreateInstance ?ic
      \<in> set (fst (Provision world_up broker ''guid-1'' long_name_params plan_3_SSD))"
    by simp
  from derived_cluster_id [OF request_long_name absent issued] request_long_name absent issued
  show ?thesis
    by simp
qed

theorem derived_cluster_id_counterexample:
  "RuneCount accents_name = 11
   \<and> fst (Provision world_up broker ''guid-1'' accents_params plan_3_SSD) =
       [NewInstanceAdminClient ''my-project'' (Some ''gcp-service-broker''),
        CreateInstance
          \<lparr>InstanceId = accents_name, ClusterId = take 20 accents_name @ ''-cluster'',
           NumNodes = 3, StorageType = SSD, Zone = ''us-east1-b'', DisplayName = accents_name\<rparr>]
   \<and> take 20 accents_name @ ''-cluster'' \<noteq> accents_name @ ''-cluster''
   \<and> RuneCount (take 20 accents_name) = 10"
proof -
  have named: "ensure_name world_up (Map [''name'' \<mapsto> accents_name]) =
      ([], Returned (Map [''name'' \<mapsto> accents_name]))"
    by (simp add: ensure_name_def)
  have numNodes:
    "Atoi (map_index (Map [''num_nodes'' \<mapsto> ''3'', ''storage_type'' \<mapsto> ''SSD'']) ''num_nodes'') = Inr 3"
    by (simp add: map_index_def Atoi_3)
  have long: "length accents_name = 22"
    by (simp add: accents_name_def)
  have calls: "fst (Provision world_up broker ''guid-1'' accents_params plan_3_SSD) =
       [NewInstanceAdminClient ''my-project'' (Some ''gcp-service-broker''),
        CreateInstance
          \<lparr>InstanceId = accents_name, ClusterId = take 20 accents_name @ ''-cluster'',
           NumNodes = 3, StorageType = SSD, Zone = ''us-east1-b'', DisplayName = accents_name\<rparr>]"
    using Provision_create_calls [OF request_accents named features_plan_3_SSD client_world_up numNodes]
    by (simp add: provision_eval long broker_def world_up_def)
  have cut: "take 20 accents_name @ ''-cluster'' \<noteq> accents_name @ ''-cluster''"
    by (simp add: accents_name_def)
  from RuneCount_accents_name calls cut show ?thesis
    by simp
qed

text \<open>
  C7. When the request parameters supply a \<^verbatim>\<open>cluster_id\<close>, every
  create-instance call that \<^verbatim>\<open>Provision\<close> issues carries that value as its
  cluster id, whatever the name and its length.
\<close>

theorem user_cluster_id:
  assumes "request_params details = Inr params0"
    and "map_lookup params0 ''cluster_id'' = Some userClusterId"
    and "CreateInstance ic \<in> set (fst (Provision w b instanceId details plan))"
  shows "ClusterId ic = userClusterId"
  using assms(3)
proof (rule Provision_CreateInstanceE)
  fix params0' cs1 params planDetails numNodes
  assume "request_params details = Inr params0'"
    and named: "ensure_name w params0' = (cs1, Returned params)"
    and ic: "ic = instance_conf params planDetails numNodes"
  with assms(1) have named: "ensure_name w params0 = (cs1, Returned params)"
    by simp
  have "map_lookup params ''cluster_id'' = Some userClusterId"
    using ensure_name_Returned(2) [OF named, of "''cluster_id''"] assms(2) by simp
  then show ?thesis
    by (simp add: ic instance_conf_def clusterId_def)
qed

theorem user_cluster_id_witness:
  "request_params cluster_id_params =
     Inr (Map [''name'' \<mapsto> ''abcdefghijklmnopqrstuvwxyz'', ''cluster_id'' \<mapsto> ''c1''])
   \<and> map_lookup (Map [''name'' \<mapsto> ''abcdefghijklmnopqrstuvwxyz'', ''cluster_id'' \<mapsto> ''c1''])
        ''cluster_id'' = Some ''c1''
   \<and> CreateInstance
        \<lparr>InstanceId = ''abcdefghijklmnopqrstuvwxyz'', ClusterId = ''c1'',
         NumNodes = 3, StorageType = SSD, Zone = ''us-east1-b'',
         DisplayName = ''abcdefghijklmnopqrstuvwxyz''\<rparr>
       \<in> set (fst (Provision world_up broker ''guid-1'' cluster_id_params plan_3_SSD))
   \<and> ClusterId
        \<lparr>InstanceId = ''abcdefghijklmnopqrstuvwxyz'', ClusterId = ''c1'',
         NumNodes = 3, StorageType = SSD, Zone = ''us-east1-b'',
         DisplayName = ''abcdefghijklmnopqrstuvwxyz''\<rparr> = ''c1''"
proof -
  let ?params = "Map [''name'' \<mapsto> ''abcdefghijklmnopqrstuvwxyz'', ''cluster_id'' \<mapsto> ''c1'']"
  let ?ic = "\<lparr>InstanceId = ''abcdefghijklmnopqrstuvwxyz'', ClusterId = ''c1'', NumNodes = 3,
      StorageType = SSD, Zone = ''us-east1-b'', DisplayName = ''abcdefghijklmnopqrstuvwxyz''\<rparr>"
  have supplied: "map_lookup ?params ''cluster_id'' = Some ''c1''"
    by simp
  have named: "ensure_name world_up ?params = ([], Returned ?params)"
    by (simp add: ensure_name_def)
  have numNodes:
    "Atoi (map_index (Map [''num_nodes'' \<mapsto> ''3'', ''storage_type'' \<mapsto> ''SSD'']) ''num_nodes'') = Inr 3"
    by (simp add: map_index_def Atoi_3)
  have "fst (Provision world_up broker ''guid-1'' cluster_id_params plan_3_SSD) =
      [NewInstanceAdminClient (ProjectId broker) (Some (CustomUserAgent world_up)), CreateInstance ?ic]"
    using Provision_create_calls [OF request_cluster_id named features_plan_3_SSD client_world_up numNodes]
    by (simp add: provision_eval)
  then have issued: "CreateInstance ?ic
      \<in> set (fst (Provision world_up broker ''guid-1'' cluster_id_params plan_3_SSD))"
    by simp
  from user_cluster_id [OF request_cluster_id supplied issued] request_cluster_id supplied issued
  show ?thesis
    by simp
qed

subsection \<open>Deprovisioning\<close>

text \<open>
  C3, as the code has it. \<^verbatim>\<open>Deprovision\<close> creates the administration client
  before it queries the database. When the client is created and the database
  has no record for the instance id, \<^verbatim>\<open>Deprovision\<close> returns
  \<^verbatim>\<open>ErrInstanceDoesNotExist\<close>, and the creation of the client and the query
  are its only calls: no delete-instance call is issued. When the client
  cannot be created, \<^verbatim>\<open>Deprovision\<close> returns the error of its creation under
  \<^verbatim>\<open>Error creating BigQuery client: \<close> after that one call, whatever the
  database holds for the instance id.
\<close>

theorem Deprovision_no_record:
  "(new_admin_client w (ProjectId b) None = None \<and> db_first w instanceID = Inl ErrRecordNotFound \<longrightarrow>
      Deprovision w b instanceID details =
        ([NewInstanceAdminClient (ProjectId b) None, First instanceID],
         Some ErrInstanceDoesNotExist))
   \<and> (\<forall>err. new_admin_client w (ProjectId b) None = Some err \<longrightarrow>
         Deprovision w b instanceID details =
           ([NewInstanceAdminClient (ProjectId b) None],
            Some (Errorf ''Error creating BigQuery client: '' err)))"
  by (simp add: Deprovision_def)

theorem Deprovision_no_record_witness:
  "new_admin_client world_up (ProjectId broker) None = None
   \<and> db_first world_up ''guid-2'' = Inl ErrRecordNotFound
   \<and> Deprovision world_up broker ''guid-2'' () =
       ([NewInstanceAdminClient ''my-project'' None, First ''guid-2''],
        Some ErrInstanceDoesNotExist)
   \<and> new_admin_client world_no_client (ProjectId broker) None =
       Some (ErrorString ''could not find default credentials'')
   \<and> db_first world_no_client ''guid-1'' =
       Inr \<lparr>Name = ''foo'', Url = [], Location = [], OtherDetails = []\<rparr>
   \<and> Deprovision world_no_client broker ''guid-1'' () =
       ([NewInstanceAdminClient ''my-project'' None],
        Some (Errorf ''Error creating BigQuery client: ''
               (ErrorString ''could not find default credentials'')))"
proof -
  have client: "new_admin_client world_up (ProjectId broker) None = None"
    by (simp add: world_up_def)
  have absent: "db_first world_up ''guid-2'' = Inl ErrRecordNotFound"
    by (simp add: world_up_def)
  have no_client: "new_admin_client world_no_client (ProjectId broker) None =
      Some (ErrorString ''could not find default credentials'')"
    by (simp add: world_no_client_def world_up_def)
  have found: "db_first world_no_client ''guid-1'' =
      Inr \<lparr>Name = ''foo'', Url = [], Location = [], OtherDetails = []\<rparr>"
    by (simp add: world_no_client_def world_up_def)
  from Deprovision_no_record [of world_up broker "''guid-2''" "()", THEN conjunct1] client absent
  have "Deprovision world_up broker ''guid-2'' () =
       ([NewInstanceAdminClient (ProjectId broker) None, First ''guid-2''],
        Some ErrInstanceDoesNotExist)"
    by blast
  moreover
  from Deprovision_no_record [of world_no_client broker "''guid-1''" "()", THEN conjunct2] no_client
  have "Deprovision world_no_client broker ''guid-1'' () =
       ([NewInstanceAdminClient (ProjectId broker) None],
        Some (Errorf ''Error creating BigQuery client: ''
               (ErrorString ''could not find default credentials'')))"
    by blast
  ultimately show ?thesis
    using client absent no_client found by (simp add: broker_def)
qed

theorem Deprovision_no_record_counterexample:
  "db_first world_no_client ''guid-2'' = Inl ErrRecordNotFound
   \<and> Deprovision world_no_client broker ''guid-2'' () =
       ([NewInstanceAdminClient ''my-project'' None],
        Some (Errorf ''Error creating BigQuery client: ''
               (ErrorString ''could not find default credentials'')))
   \<and> snd (Deprovision world_no_client broker ''guid-2'' ()) \<noteq> Some ErrInstanceDoesNotExist"
  by (simp add: Deprovision_def world_no_client_def world_up_def broker_def)

text \<open>
  C4. When the database has a record for the instance id, the delete-instance
  calls that \<^verbatim>\<open>Deprovision\<close> issues are exactly: one for the \<^verbatim>\<open>Name\<close> stored
  in the record once the client is created, none otherwise. The instance id of
  the caller is never what is deleted, unless it is that name.
\<close>

theorem Deprovision_deletes_Name:
  assumes "db_first w instanceID = Inr instance"
  shows "DeleteInstance n \<in> set (fst (Deprovision w b instanceID details)) \<longleftrightarrow>
           new_admin_client w (ProjectId b) None = None \<and> n = Name instance"
  using assms by (auto simp: Deprovision_def Let_def split: option.splits)

theorem Deprovision_deletes_Name_witness:
  "db_first world_up ''guid-1'' = Inr \<lparr>Name = ''foo'', Url = [], Location = [], OtherDetails = []\<rparr>
   \<and> DeleteInstance ''foo'' \<in> set (fst (Deprovision world_up broker ''guid-1'' ()))
   \<and> DeleteInstance ''guid-1'' \<notin> set (fst (Deprovision world_up broker ''guid-1'' ()))"
proof -
  have found: "db_first world_up ''guid-1'' =
      Inr \<lparr>Name = ''foo'', Url = [], Location = [], OtherDetails = []\<rparr>"
    by (simp add: world_up_def)
  have client: "new_admin_client world_up (ProjectId broker) None = None"
    by (simp add: world_up_def)
  from Deprovision_deletes_Name [OF found, of "''foo''" broker "()"]
    Deprovision_deletes_Name [OF found, of "''guid-1''" broker "()"] found client
  show ?thesis
    by simp
qed

text \<open>
  C10. Whenever \<^verbatim>\<open>Deprovision\<close> queries the database and the query fails, with
  whatever error, it returns \<^verbatim>\<open>ErrInstanceDoesNotExist\<close> and issues no
  delete-instance call.
\<close>

theorem Deprovision_lookup_failure:
  assumes "First instanceID \<in> set (fst (Deprovision w b instanceID details))"
    and "db_first w instanceID = Inl err"
  shows "snd (Deprovision w b instanceID details) = Some ErrInstanceDoesNotExist
       \<and> (\<forall>n. DeleteInstance n \<notin> set (fst (Deprovision w b instanceID details)))"
  using assms by (auto simp: Deprovision_def Let_def split: option.splits)

theorem Deprovision_lookup_failure_witness:
  "First ''guid-1'' \<in> set (fst (Deprovision world_db_down broker ''guid-1'' ()))
   \<and> db_first world_db_down ''guid-1'' = Inl (ErrorString ''connection refused'')
   \<and> snd (Deprovision world_db_down broker ''guid-1'' ()) = Some ErrInstanceDoesNotExist"
proof -
  have queried: "First ''guid-1'' \<in> set (fst (Deprovision world_db_down broker ''guid-1'' ()))"
    by (simp add: Deprovision_def world_db_down_def world_up_def)
  have failed: "db_first world_db_down ''guid-1'' = Inl (ErrorString ''connection refused'')"
    by (simp add: world_db_down_def)
  from Deprovision_lookup_failure [OF queried failed] queried failed show ?thesis
    by simp
qed

subsection \<open>The plan features\<close>

text \<open>
  C5, as the code has it. For a plan whose features decode: when
  \<^verbatim>\<open>num_nodes\<close> is \<^verbatim>\<open>"4"\<close>, every create-instance call that \<^verbatim>\<open>Provision\<close>
  issues has the node count 4. When \<^verbatim>\<open>num_nodes\<close> does not convert (as
  \<^verbatim>\<open>"abc"\<close> does not), no create-instance call is issued, with no node count
  in place of the missing one, and \<^verbatim>\<open>Provision\<close> never returns without an
  error. The conversion comes after the request parameters are decoded, a
  name is stored and the client is created: when these went through, the
  error returned is the conversion's, under
  \<^verbatim>\<open>Error converting num_nodes to int: \<close>, with zero details; when the client
  cannot be created, it is the error of the client's creation; when storing
  the name panics, \<^verbatim>\<open>Provision\<close> panics; when the request parameters do not
  decode, it is the error of their decoding.
\<close>

theorem num_nodes_conversion:
  assumes planDetails: "json_Unmarshal (Features plan) = Inr planDetails"
  shows "(map_index planDetails ''num_nodes'' = ''4'' \<longrightarrow>
            (\<forall>ic. CreateInstance ic \<in> set (fst (Provision w b instanceId details plan)) \<longrightarrow>
                  NumNodes ic = 4 \<and> sint (NumNodes ic) = 4))
       \<and> (\<forall>err. Atoi (map_index planDetails ''num_nodes'') = Inl err \<longrightarrow>
            (\<forall>ic. CreateInstance ic \<notin> set (fst (Provision w b instanceId details plan)))
          \<and> (\<forall>sid. snd (Provision w b instanceId details plan) \<noteq> Returned (sid, None))
          \<and> (\<forall>params0 cs1 params.
                request_params details = Inr params0
              \<and> ensure_name w params0 = (cs1, Returned params)
              \<and> new_admin_client w (ProjectId b) (Some (CustomUserAgent w)) = None \<longrightarrow>
                Provision w b instanceId details plan =
                  (cs1 @ [NewInstanceAdminClient (ProjectId b) (Some (CustomUserAgent w))],
                   Returned (zeroServiceInstanceDetails,
                     Some (Errorf ''Error converting num_nodes to int: '' err)))))
       \<and> Atoi ''4'' = Inr 4
       \<and> Atoi ''abc'' = Inl (NumError ''abc'' ErrSyntax)
       \<and> (\<forall>params0 cs1 params cause.
             request_params details = Inr params0
           \<and> ensure_name w params0 = (cs1, Returned params)
           \<and> new_admin_client w (ProjectId b) (Some (CustomUserAgent w)) = Some cause \<longrightarrow>
             Provision w b instanceId details plan =
               (cs1 @ [NewInstanceAdminClient (ProjectId b) (Some (CustomUserAgent w))],
                Returned (zeroServiceInstanceDetails,
                  Some (Errorf ''Error creating bigtable client: '' cause))))
       \<and> (\<forall>params0 cs1 msg.
             request_params details = Inr params0
           \<and> ensure_name w params0 = (cs1, Panic msg) \<longrightarrow>
             Provision w b instanceId details plan = (cs1, Panic msg))
       \<and> (\<forall>cause.
             request_params details = Inl cause \<longrightarrow>
             Provision w b instanceId details plan =
               ([], Returned (zeroServiceInstanceDetails,
                      Some (Errorf ''Error unmarshalling parameters: '' cause))))"
proof -
  have four: "NumNodes ic = 4 \<and> sint (NumNodes ic) = 4"
    if "map_index planDetails ''num_nodes'' = ''4''"
      and "CreateInstance ic \<in> set (fst (Provision w b instanceId details plan))" for ic
    using that(2)
  proof (rule Provision_CreateInstanceE)
    fix params planDetails' numNodes
    assume "json_Unmarshal (Features plan) = Inr planDetails'"
      and "Atoi (map_index planDetails' ''num_nodes'') = Inr numNodes"
      and "ic = instance_conf params planDetails' numNodes"
    with planDetails that(1) show ?thesis
      by (simp add: Atoi_4 instance_conf_def)
  qed
  have no_call: "CreateInstance ic \<notin> set (fst (Provision w b instanceId details plan))"
    if "Atoi (map_index planDetails ''num_nodes'') = Inl err" for err ic
  proof
    assume "CreateInstance ic \<in> set (fst (Provision w b instanceId details plan))"
    then show False
    proof (rule Provision_CreateInstanceE)
      fix planDetails' numNodes
      assume "json_Unmarshal (Features plan) = Inr planDetails'"
        and "Atoi (map_index planDetails' ''num_nodes'') = Inr numNodes"
      with planDetails that show False by simp
    qed
  qed
  have no_success: "snd (Provision w b instanceId details plan) \<noteq> Returned (sid, None)"
    if "Atoi (map_index planDetails ''num_nodes'') = Inl err" for err sid
  proof
    assume "snd (Provision w b instanceId details plan) = Returned (sid, None)"
    then show False
    proof (rule Provision_succeededE)
      fix planDetails' numNodes
      assume "json_Unmarshal (Features plan) = Inr planDetails'"
        and "Atoi (map_index planDetails' ''num_nodes'') = Inr numNodes"
      with planDetails that show False by simp
    qed
  qed
  have failed: "Provision w b instanceId details plan =
      (cs1 @ [NewInstanceAdminClient (ProjectId b) (Some (CustomUserAgent w))],
       Returned (zeroServiceInstanceDetails,
         Some (Errorf ''Error converting num_nodes to int: '' err)))"
    if "Atoi (map_index planDetails ''num_nodes'') = Inl err"
      and "request_params details = Inr params0"
      and "ensure_name w params0 = (cs1, Returned params)"
      and "new_admin_client w (ProjectId b) (Some (CustomUserAgent w)) = None"
    for err params0 cs1 params
    using Provision_conversion_error [OF that(2) that(3) planDetails that(4) that(1)] .
  have no_client: "Provision w b instanceId details plan =
      (cs1 @ [NewInstanceAdminClient (ProjectId b) (Some (CustomUserAgent w))],
       Returned (zeroServiceInstanceDetails,
         Some (Errorf ''Error creating bigtable client: '' cause)))"
    if "request_params details = Inr params0"
      and "ensure_name w params0 = (cs1, Returned params)"
      and "new_admin_client w (ProjectId b) (Some (CustomUserAgent w)) = Some cause"
    for params0 cs1 params cause
    using Provision_client_error [OF that(1) that(2) planDetails that(3)] .
  have panic: "Provision w b instanceId details plan = (cs1, Panic msg)"
    if "request_params details = Inr params0" and "ensure_name w params0 = (cs1, Panic msg)"
    for params0 cs1 msg
    using Provision_panic [OF that] .
  have params_error: "Provision w b instanceId details plan =
      ([], Returned (zeroServiceInstanceDetails,
             Some (Errorf ''Error unmarshalling parameters: '' cause)))"
    if "request_params details = Inl cause" for cause
    using Provision_params_error [OF that] .
  from four no_call no_success failed Atoi_4 Atoi_abc no_client panic params_error show ?thesis
    by (intro conjI allI impI) (blast+)
qed

theorem num_nodes_conversion_witness:
  "json_Unmarshal (Features plan_4_HDD) =
     Inr (Map [''num_nodes'' \<mapsto> ''4'', ''storage_type'' \<mapsto> ''HDD''])
   \<and> CreateInstance
        \<lparr>InstanceId = ''mytable'', ClusterId = ''mytable-cluster'', NumNodes = 4,
         StorageType = HDD, Zone = ''us-east1-b'', DisplayName = ''mytable''\<rparr>
       \<in> set (fst (Provision world_up broker ''guid-1'' mytable_params plan_4_HDD))
   \<and> sint (NumNodes
        \<lparr>InstanceId = ''mytable'', ClusterId = ''mytable-cluster'', NumNodes = 4,
         StorageType = HDD, Zone = ''us-east1-b'', DisplayName = ''mytable''\<rparr>) = 4
   \<and> json_Unmarshal (Features plan_abc) =
       Inr (Map [''num_nodes'' \<mapsto> ''abc'', ''storage_type'' \<mapsto> ''SSD''])
   \<and> Provision world_up broker ''guid-1'' mytable_params plan_abc =
       ([NewInstanceAdminClient ''my-project'' (Some ''gcp-service-broker'')],
        Returned (zeroServiceInstanceDetails,
          Some (Errorf ''Error converting num_nodes to int: '' (NumError ''abc'' ErrSyntax))))
   \<and> Provision world_no_client broker ''guid-1'' mytable_params plan_4_HDD =
       ([NewInstanceAdminClient ''my-project'' (Some ''gcp-service-broker'')],
        Returned (zeroServiceInstanceDetails,
          Some (Errorf ''Error creating bigtable client: ''
                 (ErrorString ''could not find default credentials''))))"
proof -
  let ?ic = "\<lparr>InstanceId = ''mytable'', ClusterId = ''mytable-cluster'', NumNodes = 4,
      StorageType = HDD, Zone = ''us-east1-b'', DisplayName = ''mytable''\<rparr>"
  have issued: "CreateInstance ?ic
      \<in> set (fst (Provision world_up broker ''guid-1'' mytable_params plan_4_HDD))"
    by (simp add: calls_mytable_plan_4_HDD)
  have four: "map_index (Map [''num_nodes'' \<mapsto> ''4'', ''storage_type'' \<mapsto> ''HDD'']) ''num_nodes'' = ''4''"
    by (simp add: map_index_def)
  have abc: "Atoi (map_index (Map [''num_nodes'' \<mapsto> ''abc'', ''storage_type'' \<mapsto> ''SSD'']) ''num_nodes'')
      = Inl (NumError ''abc'' ErrSyntax)"
    by (simp add: map_index_def Atoi_abc)
  have "sint (NumNodes ?ic) = 4"
    using num_nodes_conversion [OF features_plan_4_HDD, of world_up broker "''guid-1''" mytable_params,
        THEN conjunct1] four issued
    by blast
  moreover have "Provision world_up broker ''guid-1'' mytable_params plan_abc =
       ([NewInstanceAdminClient ''my-project'' (Some ''gcp-service-broker'')],
        Returned (zeroServiceInstanceDetails,
          Some (Errorf ''Error converting num_nodes to int: '' (NumError ''abc'' ErrSyntax))))"
  proof -
    from num_nodes_conversion [OF features_plan_abc, of world_up broker "''guid-1''" mytable_params,
        THEN conjunct2, THEN conjunct1] abc request_mytable
      named_mytable [of world_up] client_world_up [of "ProjectId broker" "Some (CustomUserAgent world_up)"]
    have "Provision world_up broker ''guid-1'' mytable_params plan_abc =
       ([] @ [NewInstanceAdminClient (ProjectId broker) (Some (CustomUserAgent world_up))],
        Returned (zeroServiceInstanceDetails,
          Some (Errorf ''Error converting num_nodes to int: '' (NumError ''abc'' ErrSyntax))))"
      by blast
    then show ?thesis
      by (simp add: broker_def world_up_def)
  qed
  moreover have "Provision world_no_client broker ''guid-1'' mytable_params plan_4_HDD =
       ([NewInstanceAdminClient ''my-project'' (Some ''gcp-service-broker'')],
        Returned (zeroServiceInstanceDetails,
          Some (Errorf ''Error creating bigtable client: ''
                 (ErrorString ''could not find default credentials''))))"
  proof -
    have no_client: "new_admin_client world_no_client (ProjectId broker)
        (Some (CustomUserAgent world_no_client)) = Some (ErrorString ''could not find default credentials'')"
      by (simp add: world_no_client_def world_up_def)
    from num_nodes_conversion [OF features_plan_4_HDD, of world_no_client broker "''guid-1''" mytable_params,
        THEN conjunct2, THEN conjunct2, THEN conjunct2, THEN conjunct2, THEN conjunct1]
      request_mytable named_mytable [of world_no_client] no_client
    have "Provision world_no_client broker ''guid-1'' mytable_params plan_4_HDD =
       ([] @ [NewInstanceAdminClient (ProjectId broker) (Some (CustomUserAgent world_no_client))],
        Returned (zeroServiceInstanceDetails,
          Some (Errorf ''Error creating bigtable client: ''
                 (ErrorString ''could not find default credentials''))))"
      by blast
    then show ?thesis
      by (simp add: broker_def world_no_client_def world_up_def)
  qed
  ultimately show ?thesis
    using features_plan_4_HDD issued features_plan_abc by blast
qed

theorem num_nodes_conversion_counterexample:
  "json_Unmarshal (Features plan_abc) =
     Inr (Map [''num_nodes'' \<mapsto> ''abc'', ''storage_type'' \<mapsto> ''SSD''])
   \<and> Atoi (map_index (Map [''num_nodes'' \<mapsto> ''abc'', ''storage_type'' \<mapsto> ''SSD'']) ''num_nodes'')
       = Inl (NumError ''abc'' ErrSyntax)
   \<and> Provision world_no_client broker ''guid-1'' mytable_params plan_abc =
       ([NewInstanceAdminClient ''my-project'' (Some ''gcp-service-broker'')],
        Returned (zeroServiceInstanceDetails,
          Some (Errorf ''Error creating bigtable client: ''
                 (ErrorString ''could not find default credentials''))))"
proof -
  have "new_admin_client world_no_client (ProjectId broker) (Some (CustomUserAgent world_no_client))
      = Some (ErrorString ''could not find default credentials'')"
    by (simp add: world_no_client_def world_up_def)
  from Provision_client_error [OF request_mytable named_mytable features_plan_abc this]
  have "Provision world_no_client broker ''guid-1'' mytable_params plan_abc =
       ([NewInstanceAdminClient ''my-project'' (Some ''gcp-service-broker'')],
        Returned (zeroServiceInstanceDetails,
          Some (Errorf ''Error creating bigtable client: ''
                 (ErrorString ''could not find default credentials''))))"
    by (simp add: broker_def world_no_client_def world_up_def)
  then show ?thesis
    by (simp add: features_plan_abc map_index_def Atoi_abc)
qed

text \<open>
  C6. For a plan whose features decode, every create-instance call that
  \<^verbatim>\<open>Provision\<close> issues has the storage type \<open>SSD\<close> when \<^verbatim>\<open>storage_type\<close> is
  \<^verbatim>\<open>"SSD"\<close>, \<open>HDD\<close> when it is \<^verbatim>\<open>"HDD"\<close>, and the zero value of the type for
  every other value and for a missing key. The storage type is no ground for
  an error: whatever it is, the call is issued once the parameters are
  resolved, the client exists and the node count converts.
\<close>

theorem storage_type_lookup:
  assumes planDetails: "json_Unmarshal (Features plan) = Inr planDetails"
  shows "(\<forall>ic. CreateInstance ic \<in> set (fst (Provision w b instanceId details plan)) \<longrightarrow>
            StorageType ic =
              (if map_index planDetails ''storage_type'' = ''SSD'' then SSD
               else if map_index planDetails ''storage_type'' = ''HDD'' then HDD
               else 0)
          \<and> (map_lookup planDetails ''storage_type'' = None \<longrightarrow> StorageType ic = 0))
       \<and> (\<forall>params0 cs1 params numNodes.
             request_params details = Inr params0
           \<and> ensure_name w params0 = (cs1, Returned params)
           \<and> new_admin_client w (ProjectId b) (Some (CustomUserAgent w)) = None
           \<and> Atoi (map_index planDetails ''num_nodes'') = Inr numNodes \<longrightarrow>
             CreateInstance (instance_conf params planDetails numNodes)
             \<in> set (fst (Provision w b instanceId details plan)))"
proof -
  have looked_up: "StorageType ic =
        (if map_index planDetails ''storage_type'' = ''SSD'' then SSD
         else if map_index planDetails ''storage_type'' = ''HDD'' then HDD
         else 0)
      \<and> (map_lookup planDetails ''storage_type'' = None \<longrightarrow> StorageType ic = 0)"
    if "CreateInstance ic \<in> set (fst (Provision w b instanceId details plan))" for ic
    using that
  proof (rule Provision_CreateInstanceE)
    fix params planDetails' numNodes
    assume "json_Unmarshal (Features plan) = Inr planDetails'"
      and "ic = instance_conf params planDetails' numNodes"
    with planDetails show ?thesis
      by (simp add: instance_conf_def StorageTypes_def map_index_def)
  qed
  have issued: "CreateInstance (instance_conf params planDetails numNodes)
      \<in> set (fst (Provision w b instanceId details plan))"
    if "request_params details = Inr params0"
      and "ensure_name w params0 = (cs1, Returned params)"
      and "new_admin_client w (ProjectId b) (Some (CustomUserAgent w)) = None"
      and "Atoi (map_index planDetails ''num_nodes'') = Inr numNodes"
    for params0 cs1 params numNodes
    using Provision_create_calls [OF that(1) that(2) planDetails that(3) that(4), of instanceId]
    by simp
  from looked_up issued show ?thesis
    by (intro conjI allI impI) (blast+)
qed

theorem storage_type_lookup_witness:
  "CreateInstance
      \<lparr>InstanceId = ''mytable'', ClusterId = ''mytable-cluster'', NumNodes = 4,
       StorageType = HDD, Zone = ''us-east1-b'', DisplayName = ''mytable''\<rparr>
     \<in> set (fst (Provision world_up broker ''guid-1'' mytable_params plan_4_HDD))
   \<and> CreateInstance
      \<lparr>InstanceId = ''mytable'', ClusterId = ''mytable-cluster'', NumNodes = 3,
       StorageType = 0, Zone = ''us-east1-b'', DisplayName = ''mytable''\<rparr>
     \<in> set (fst (Provision world_up broker ''guid-1'' mytable_params plan_NVME))
   \<and> CreateInstance
      \<lparr>InstanceId = ''mytable'', ClusterId = ''mytable-cluster'', NumNodes = 3,
       StorageType = 0, Zone = ''us-east1-b'', DisplayName = ''mytable''\<rparr>
     \<in> set (fst (Provision world_up broker ''guid-1'' mytable_params plan_no_storage_type))"
proof -
  have four: "Atoi (map_index (Map [''num_nodes'' \<mapsto> ''4'', ''storage_type'' \<mapsto> ''HDD'']) ''num_nodes'') = Inr 4"
    by (simp add: map_index_def Atoi_4)
  have three: "Atoi (map_index (Map [''num_nodes'' \<mapsto> ''3'', ''storage_type'' \<mapsto> ''NVME'']) ''num_nodes'') = Inr 3"
    by (simp add: map_index_def Atoi_3)
  have three': "Atoi (map_index (Map [''num_nodes'' \<mapsto> ''3'']) ''num_nodes'') = Inr 3"
    by (simp add: map_index_def Atoi_3)
  note client = client_world_up [of "ProjectId broker" "Some (CustomUserAgent world_up)"]
  from storage_type_lookup [OF features_plan_4_HDD, of world_up broker "''guid-1''" mytable_params,
      THEN conjunct2] request_mytable named_mytable [of world_up] client four
  have "CreateInstance (instance_conf (Map [''name'' \<mapsto> ''mytable''])
          (Map [''num_nodes'' \<mapsto> ''4'', ''storage_type'' \<mapsto> ''HDD'']) 4)
      \<in> set (fst (Provision world_up broker ''guid-1'' mytable_params plan_4_HDD))"
    by blast
  moreover
  from storage_type_lookup [OF features_plan_NVME, of world_up broker "''guid-1''" mytable_params,
      THEN conjunct2] request_mytable named_mytable [of world_up] client three
  have "CreateInstance (instance_conf (Map [''name'' \<mapsto> ''mytable''])
          (Map [''num_nodes'' \<mapsto> ''3'', ''storage_type'' \<mapsto> ''NVME'']) 3)
      \<in> set (fst (Provision world_up broker ''guid-1'' mytable_params plan_NVME))"
    by blast
  moreover
  from storage_type_lookup [OF features_plan_no_storage_type, of world_up broker "''guid-1''" mytable_params,
      THEN conjunct2] request_mytable named_mytable [of world_up] client three'
  have "CreateInstance (instance_conf (Map [''name'' \<mapsto> ''mytable''])
          (Map [''num_nodes'' \<mapsto> ''3'']) 3)
      \<in> set (fst (Provision world_up broker ''guid-1'' mytable_params plan_no_storage_type))"
    by blast
  ultimately show ?thesis
    by (simp add: provision_eval)
qed

subsection \<open>The request parameters\<close>




subsection \<open>The error paths\<close>

text \<open>
  C9. Whenever \<^verbatim>\<open>Provision\<close> returns an error, the details it returns with it
  are the zero value, and the error is one of the six that the method builds:
  for the parameters, the plan features, the client, the node count, the
  create call and the other details.
\<close>

theorem Provision_error_zero_details:
  assumes "Provision w b instanceId details plan = (cs, Returned (sid, Some err))"
  shows "sid = zeroServiceInstanceDetails
       \<and> (\<exists>cause.
            err = Errorf ''Error unmarshalling parameters: '' cause
          \<or> err = Errorf ''Error unmarshalling plan features: '' cause
          \<or> err = Errorf ''Error creating bigtable client: '' cause
          \<or> err = Errorf ''Error converting num_nodes to int: '' cause
          \<or> err = Errorf ''Error creating new instance: '' cause
          \<or> err = Errorf ''Error marshalling other details: '' cause)"
  using assms by (rule Provision_errorE) simp_all

theorem Provision_error_zero_details_witness:
  "Provision world_no_client broker ''guid-1'' mytable_params plan_3_SSD =
     ([NewInstanceAdminClient ''my-project'' (Some ''gcp-service-broker'')],
      Returned (\<lparr>Name = [], Url = [], Location = [], OtherDetails = []\<rparr>,
        Some (Errorf ''Error creating bigtable client: ''
               (ErrorString ''could not find default credentials''))))
   \<and> Provision world_create_fails broker ''guid-1'' mytable_params plan_3_SSD =
     ([NewInstanceAdminClient ''my-project'' (Some ''gcp-service-broker''),
       CreateInstance
         \<lparr>InstanceId = ''mytable'', ClusterId = ''mytable-cluster'', NumNodes = 3,
          StorageType = SSD, Zone = ''us-east1-b'', DisplayName = ''mytable''\<rparr>],
      Returned (\<lparr>Name = [], Url = [], Location = [], OtherDetails = []\<rparr>,
        Some (Errorf ''Error creating new instance: '' (ErrorString ''instance already exists''))))"
proof -
  let ?ic = "\<lparr>InstanceId = ''mytable'', ClusterId = ''mytable-cluster'', NumNodes = 3,
      StorageType = SSD, Zone = ''us-east1-b'', DisplayName = ''mytable''\<rparr>"
  have no_client: "Provision world_no_client broker ''guid-1'' mytable_params plan_3_SSD =
     ([NewInstanceAdminClient ''my-project'' (Some ''gcp-service-broker'')],
      Returned (\<lparr>Name = [], Url = [], Location = [], OtherDetails = []\<rparr>,
        Some (Errorf ''Error creating bigtable client: ''
               (ErrorString ''could not find default credentials''))))"
    by (simp add: Provision_def Let_def request_mytable named_mytable features_plan_3_SSD
        world_no_client_def world_up_def broker_def zeroServiceInstanceDetails_def)
  have client: "new_admin_client world_create_fails (ProjectId broker)
      (Some (CustomUserAgent world_create_fails)) = None"
    by (simp add: world_create_fails_def world_up_def)
  have numNodes:
    "Atoi (map_index (Map [''num_nodes'' \<mapsto> ''3'', ''storage_type'' \<mapsto> ''SSD'']) ''num_nodes'') = Inr 3"
    by (simp add: map_index_def Atoi_3)
  have ic: "instance_conf (Map [''name'' \<mapsto> ''mytable''])
      (Map [''num_nodes'' \<mapsto> ''3'', ''storage_type'' \<mapsto> ''SSD'']) 3 = ?ic"
    by (simp add: provision_eval)
  have refused: "create_instance world_create_fails
      (instance_conf (Map [''name'' \<mapsto> ''mytable''])
        (Map [''num_nodes'' \<mapsto> ''3'', ''storage_type'' \<mapsto> ''SSD'']) 3)
      = Some (ErrorString ''instance already exists'')"
    by (simp add: world_create_fails_def)
  have "fst (Provision world_create_fails broker ''guid-1'' mytable_params plan_3_SSD) =
      [NewInstanceAdminClient ''my-project'' (Some ''gcp-service-broker''), CreateInstance ?ic]"
    using Provision_create_calls [OF request_mytable named_mytable features_plan_3_SSD client numNodes]
    by (simp add: ic world_create_fails_def world_up_def broker_def)
  moreover
  have "snd (Provision world_create_fails broker ''guid-1'' mytable_params plan_3_SSD) =
      Returned (\<lparr>Name = [], Url = [], Location = [], OtherDetails = []\<rparr>,
        Some (Errorf ''Error creating new instance: '' (ErrorString ''instance already exists'')))"
    using Provision_create_failed [OF request_mytable named_mytable features_plan_3_SSD client
        numNodes refused]
    by (simp add: zeroServiceInstanceDetails_def)
  ultimately
  have create_fails: "Provision world_create_fails broker ''guid-1'' mytable_params plan_3_SSD =
     ([NewInstanceAdminClient ''my-project'' (Some ''gcp-service-broker''), CreateInstance ?ic],
      Returned (\<lparr>Name = [], Url = [], Location = [], OtherDetails = []\<rparr>,
        Some (Errorf ''Error creating new instance: '' (ErrorString ''instance already exists''))))"
    by (simp add: prod_eq_iff)
  from Provision_error_zero_details [OF no_client, THEN conjunct1]
    Provision_error_zero_details [OF create_fails, THEN conjunct1] no_client create_fails
  show ?thesis
    by simp
qed

subsection \<open>Further properties of \<^verbatim>\<open>Provision\<close>\<close>

text \<open>
  Raw parameters that are not empty and decode to the nil map, as the literal
  \<^verbatim>\<open>null\<close> does, make \<^verbatim>\<open>Provision\<close> panic: the name generator is called, and
  storing the name in the nil map is an assignment to an entry in a nil map.
\<close>

theorem nil_parameters_panic:
  assumes "RawParameters details \<noteq> []"
    and "json_Unmarshal (RawParameters details) = Inr NilMap"
  shows "Provision w b instanceId details plan =
           ([InstanceNameWithSeparator ''-''], Panic ''assignment to entry in nil map'')"
  using assms by (simp add: Provision_def request_params_def ensure_name_def)

theorem nil_parameters_panic_witness:
  "RawParameters null_params \<noteq> []
   \<and> json_Unmarshal (RawParameters null_params) = Inr NilMap
   \<and> Provision world_up broker ''guid-1'' null_params plan_3_SSD =
       ([InstanceNameWithSeparator ''-''], Panic ''assignment to entry in nil map'')"
proof -
  have raw: "RawParameters null_params \<noteq> []"
    by (simp add: null_params_def)
  have nil: "json_Unmarshal (RawParameters null_params) = Inr NilMap"
    by (simp add: null_params_def unmarshal_null)
  from nil_parameters_panic [OF raw nil] raw nil show ?thesis
    by simp
qed

text \<open>
  Every create-instance call carries the zone of the request parameters, or
  \<^verbatim>\<open>us-east1-b\<close> when they have none, and their display name, or the instance
  name when they have none.
\<close>

theorem zone_and_display_name:
  assumes "request_params details = Inr params0"
    and "CreateInstance ic \<in> set (fst (Provision w b instanceId details plan))"
  shows "Zone ic = (case map_lookup params0 ''zone'' of Some z \<Rightarrow> z | None \<Rightarrow> ''us-east1-b'')
       \<and> DisplayName ic =
           (case map_lookup params0 ''display_name'' of Some d \<Rightarrow> d | None \<Rightarrow> InstanceId ic)"
  using assms(2)
proof (rule Provision_CreateInstanceE)
  fix params0' cs1 params planDetails numNodes
  assume "request_params details = Inr params0'"
    and named: "ensure_name w params0' = (cs1, Returned params)"
    and ic: "ic = instance_conf params planDetails numNodes"
  with assms(1) have named: "ensure_name w params0 = (cs1, Returned params)"
    by simp
  have "map_lookup params ''zone'' = map_lookup params0 ''zone''"
    and "map_lookup params ''display_name'' = map_lookup params0 ''display_name''"
    using ensure_name_Returned(2) [OF named] by simp_all
  then show ?thesis
    by (simp add: ic instance_conf_def zone_def displayName_def split: option.splits)
qed

theorem zone_and_display_name_witness:
  "request_params zone_params =
     Inr (Map [''name'' \<mapsto> ''mytable'', ''zone'' \<mapsto> ''europe-west1-c'',
               ''display_name'' \<mapsto> ''My table''])
   \<and> CreateInstance
        \<lparr>InstanceId = ''mytable'', ClusterId = ''mytable-cluster'', NumNodes = 3,
         StorageType = SSD, Zone = ''europe-west1-c'', DisplayName = ''My table''\<rparr>
       \<in> set (fst (Provision world_up broker ''guid-1'' zone_params plan_3_SSD))
   \<and> Zone
        \<lparr>InstanceId = ''mytable'', ClusterId = ''mytable-cluster'', NumNodes = 3,
         StorageType = SSD, Zone = ''europe-west1-c'', DisplayName = ''My table''\<rparr>
       = ''europe-west1-c''"
proof -
  let ?params = "Map [''name'' \<mapsto> ''mytable'', ''zone'' \<mapsto> ''europe-west1-c'',
      ''display_name'' \<mapsto> ''My table'']"
  let ?ic = "\<lparr>InstanceId = ''mytable'', ClusterId = ''mytable-cluster'', NumNodes = 3,
      StorageType = SSD, Zone = ''europe-west1-c'', DisplayName = ''My table''\<rparr>"
  have named: "ensure_name world_up ?params = ([], Returned ?params)"
    by (simp add: ensure_name_def)
  have numNodes:
    "Atoi (map_index (Map [''num_nodes'' \<mapsto> ''3'', ''storage_type'' \<mapsto> ''SSD'']) ''num_nodes'') = Inr 3"
    by (simp add: map_index_def Atoi_3)
  have "fst (Provision world_up broker ''guid-1'' zone_params plan_3_SSD) =
      [NewInstanceAdminClient (ProjectId broker) (Some (CustomUserAgent world_up)), CreateInstance ?ic]"
    using Provision_create_calls [OF request_zone named features_plan_3_SSD client_world_up numNodes]
    by (simp add: provision_eval)
  then have issued: "CreateInstance ?ic
      \<in> set (fst (Provision world_up broker ''guid-1'' zone_params plan_3_SSD))"
    by simp
  from zone_and_display_name [OF request_zone issued] request_zone issued show ?thesis
    by simp
qed

text \<open>
  When the request parameters have no name, the first call of \<^verbatim>\<open>Provision\<close>
  is to the name generator, with the separator \<^verbatim>\<open>-\<close>, and every
  create-instance call carries the name it returned.
\<close>

theorem generated_name:
  assumes "request_params details = Inr params0"
    and "map_lookup params0 ''name'' = None"
    and "CreateInstance ic \<in> set (fst (Provision w b instanceId details plan))"
  shows "InstanceId ic = name_generator w ''-''
       \<and> hd (fst (Provision w b instanceId details plan)) = InstanceNameWithSeparator ''-''"
  using assms(3)
proof (rule Provision_CreateInstanceE)
  fix params0' cs1 params planDetails numNodes
  assume "request_params details = Inr params0'"
    and named: "ensure_name w params0' = (cs1, Returned params)"
    and planDetails: "json_Unmarshal (Features plan) = Inr planDetails"
    and client: "new_admin_client w (ProjectId b) (Some (CustomUserAgent w)) = None"
    and numNodes: "Atoi (map_index planDetails ''num_nodes'') = Inr numNodes"
    and ic: "ic = instance_conf params planDetails numNodes"
  with assms(1) have params0: "request_params details = Inr params0"
    and named: "ensure_name w params0 = (cs1, Returned params)"
    by simp_all
  have cs1: "cs1 = [InstanceNameWithSeparator ''-'']"
    using named assms(2) by (simp add: ensure_name_def)
  have "InstanceId ic = name_generator w ''-''"
    using ensure_name_Returned(1) [OF named] assms(2) by (simp add: ic instance_conf_def)
  moreover have "hd (fst (Provision w b instanceId details plan)) = InstanceNameWithSeparator ''-''"
    using Provision_create_calls [OF params0 named planDetails client numNodes, of instanceId]
    by (simp add: cs1)
  ultimately show ?thesis
    by simp
qed

theorem generated_name_witness:
  "request_params empty_params = Inr (Map Map.empty)
   \<and> map_lookup (Map Map.empty) ''name'' = None
   \<and> CreateInstance
        \<lparr>InstanceId = ''pcf-instance'', ClusterId = ''pcf-instance-cluster'', NumNodes = 3,
         StorageType = SSD, Zone = ''us-east1-b'', DisplayName = ''pcf-instance''\<rparr>
       \<in> set (fst (Provision world_up broker ''guid-1'' empty_params plan_3_SSD))
   \<and> hd (fst (Provision world_up broker ''guid-1'' empty_params plan_3_SSD)) =
       InstanceNameWithSeparator ''-''"
proof -
  let ?ic = "\<lparr>InstanceId = ''pcf-instance'', ClusterId = ''pcf-instance-cluster'', NumNodes = 3,
      StorageType = SSD, Zone = ''us-east1-b'', DisplayName = ''pcf-instance''\<rparr>"
  have params0: "request_params empty_params = Inr (Map Map.empty)"
    by (simp add: request_params_def empty_params_def)
  have absent: "map_lookup (Map Map.empty) ''name'' = None"
    by simp
  have named: "ensure_name world_up (Map Map.empty) =
      ([InstanceNameWithSeparator ''-''], Returned (Map [''name'' \<mapsto> ''pcf-instance'']))"
    by (simp add: ensure_name_def world_up_def)
  have numNodes:
    "Atoi (map_index (Map [''num_nodes'' \<mapsto> ''3'', ''storage_type'' \<mapsto> ''SSD'']) ''num_nodes'') = Inr 3"
    by (simp add: map_index_def Atoi_3)
  have "fst (Provision world_up broker ''guid-1'' empty_params plan_3_SSD) =
      [InstanceNameWithSeparator ''-'',
       NewInstanceAdminClient (ProjectId broker) (Some (CustomUserAgent world_up)), CreateInstance ?ic]"
    using Provision_create_calls [OF params0 named features_plan_3_SSD client_world_up numNodes]
    by (simp add: provision_eval)
  then have issued: "CreateInstance ?ic
      \<in> set (fst (Provision world_up broker ''guid-1'' empty_params plan_3_SSD))"
    by simp
  from generated_name [OF params0 absent issued] params0 absent issued show ?thesis
    by simp
qed

text \<open>
  The node count of a create-instance call is the converted \<^verbatim>\<open>num_nodes\<close>
  cut to 32 bits: it is the number of the plan exactly when that number fits
  an \<^verbatim>\<open>int32\<close>.
\<close>

theorem num_nodes_low_32_bits:
  assumes "json_Unmarshal (Features plan) = Inr planDetails"
    and "Atoi (map_index planDetails ''num_nodes'') = Inr numNodes"
    and "CreateInstance ic \<in> set (fst (Provision w b instanceId details plan))"
  shows "NumNodes ic = word_of_int numNodes
       \<and> (sint (NumNodes ic) = numNodes \<longleftrightarrow> - (2 ^ 31) \<le> numNodes \<and> numNodes < 2 ^ 31)"
  using assms(3)
proof (rule Provision_CreateInstanceE)
  fix params planDetails' numNodes'
  assume "json_Unmarshal (Features plan) = Inr planDetails'"
    and "Atoi (map_index planDetails' ''num_nodes'') = Inr numNodes'"
    and "ic = instance_conf params planDetails' numNodes'"
  with assms(1,2) have ic: "NumNodes ic = word_of_int numNodes"
    by (simp add: instance_conf_def)
  have "sint (word_of_int numNodes :: 32 word) = numNodes \<longleftrightarrow>
      - (2 ^ 31) \<le> numNodes \<and> numNodes < 2 ^ 31"
    by (simp add: sint_sbintrunc' signed_take_bit_int_eq_self_iff)
  with ic show ?thesis
    by simp
qed

theorem num_nodes_low_32_bits_witness:
  "json_Unmarshal (Features plan_wide) =
     Inr (Map [''num_nodes'' \<mapsto> ''4294967300'', ''storage_type'' \<mapsto> ''SSD''])
   \<and> Atoi (map_index (Map [''num_nodes'' \<mapsto> ''4294967300'', ''storage_type'' \<mapsto> ''SSD''])
        ''num_nodes'') = Inr 4294967300
   \<and> CreateInstance
        \<lparr>InstanceId = ''mytable'', ClusterId = ''mytable-cluster'', NumNodes = 4,
         StorageType = SSD, Zone = ''us-east1-b'', DisplayName = ''mytable''\<rparr>
       \<in> set (fst (Provision world_up broker ''guid-1'' mytable_params plan_wide))
   \<and> sint (NumNodes
        \<lparr>InstanceId = ''mytable'', ClusterId = ''mytable-cluster'', NumNodes = 4,
         StorageType = SSD, Zone = ''us-east1-b'', DisplayName = ''mytable''\<rparr>) \<noteq> 4294967300"
proof -
  let ?ic = "\<lparr>InstanceId = ''mytable'', ClusterId = ''mytable-cluster'', NumNodes = 4,
      StorageType = SSD, Zone = ''us-east1-b'', DisplayName = ''mytable''\<rparr>"
  have numNodes:
    "Atoi (map_index (Map [''num_nodes'' \<mapsto> ''4294967300'', ''storage_type'' \<mapsto> ''SSD''])
       ''num_nodes'') = Inr 4294967300"
    by (simp add: map_index_def Atoi_wide)
  have "fst (Provision world_up broker ''guid-1'' mytable_params plan_wide) =
      [NewInstanceAdminClient (ProjectId broker) (Some (CustomUserAgent world_up)), CreateInstance ?ic]"
    using Provision_create_calls [OF request_mytable named_mytable features_plan_wide client_world_up numNodes]
    by (simp add: provision_eval)
  then have issued: "CreateInstance ?ic
      \<in> set (fst (Provision world_up broker ''guid-1'' mytable_params plan_wide))"
    by simp
  from num_nodes_low_32_bits [OF features_plan_wide numNodes issued] features_plan_wide numNodes issued
  show ?thesis
    by simp
qed

end
